theory Spec2Isabelle
  imports Complex_Main
begin

section \<open>The STMD fix of \<^verbatim>\<open>src/USER-MISC/fix_stmd.cpp\<close>\<close>

text \<open>
  The class \<^verbatim>\<open>FixStmd\<close> is embedded as a record holding the members that the update
  engine reads or writes, and each member function as a function from the record to the
  updated record.  C \<^verbatim>\<open>int\<close> members are \<open>int\<close>, \<^verbatim>\<open>double\<close> members are \<open>real\<close>: the
  arithmetic of the source is read as exact real arithmetic, so rounding of binary
  floating point, infinities and NaN are outside the model (a division by zero is
  infinite or NaN in C++ and \<open>0\<close> in HOL), and so is overflow of the 32-bit counters.  The heap arrays \<^verbatim>\<open>Y2\<close>, \<^verbatim>\<open>Hist\<close>, \<^verbatim>\<open>Htot\<close>, \<^verbatim>\<open>PROH\<close> are lists; they are
  allocated by \<^verbatim>\<open>init()\<close> with \<^verbatim>\<open>N\<close> cells.  The members \<^verbatim>\<open>Y1\<close>, \<^verbatim>\<open>Prob\<close>, \<^verbatim>\<open>totC\<close> and
  \<^verbatim>\<open>T0\<close> are written by \<^verbatim>\<open>init()\<close> and never read by the functions below (\<^verbatim>\<open>EPROB\<close> is
  never called); they, the file handles, the MPI broadcast and the diagnostic printing
  are left out.
\<close>

subsection \<open>Data\<close>

record FixStmd =
  RSTFRQ :: int
  f_flag :: int
  TSC1 :: int
  TSC2 :: int
  OREST :: int
  BinMin :: int
  N :: int
  bin :: real
  ST :: real
  TL :: real
  TH :: real
  initf :: real
  dFval3 :: real
  dFval4 :: real
  STG :: int
  SWf :: int
  SWfold :: int
  SWchk :: int
  Count :: int
  CountH :: int
  CountPH :: int
  totCi :: int
  curbin :: int
  f :: real
  df :: real
  T :: real
  Gamma :: real
  T1 :: real
  T2 :: real
  CTmin :: real
  CTmax :: real
  HCKtol :: real
  pfinFval :: real
  finFval :: real
  Y2 :: "real list"
  Hist :: "int list"
  Htot :: "int list"
  PROH :: "int list"

text \<open>
  \<^verbatim>\<open>error->all\<close> and \<^verbatim>\<open>error->one\<close> abort the run; each call site in the functions below is
  one constructor.
  \<open>Undefined_behaviour\<close> stands for the places where the C++ program has no defined
  result: an access outside the \<^verbatim>\<open>N\<close> allocated cells of an array, and \<^verbatim>\<open>%\<close> by zero.
\<close>

datatype error =
  Histogram_index_out_of_range
  | F_value_less_than_unity
  | Restart_file_invalid
  | Undefined_behaviour

text \<open>All four arrays have the \<^verbatim>\<open>N\<close> cells that \<^verbatim>\<open>init()\<close> allocates.\<close>

definition allocated :: "FixStmd \<Rightarrow> bool" where
  "allocated s \<longleftrightarrow>
     0 \<le> N s \<and> length (Y2 s) = nat (N s) \<and> length (Hist s) = nat (N s) \<and>
     length (Htot s) = nat (N s) \<and> length (PROH s) = nat (N s)"

subsection \<open>C arithmetic\<close>

text \<open>\<^verbatim>\<open>round()\<close> of the C library: to the nearest integer, halves away from zero.\<close>

definition c_round :: "real \<Rightarrow> int" where
  "c_round x = (if 0 \<le> x then \<lfloor>x + 1 / 2\<rfloor> else \<lceil>x - 1 / 2\<rceil>)"

text \<open>\<^verbatim>\<open>a % b\<close> on \<^verbatim>\<open>int\<close> for \<open>b \<noteq> 0\<close>: the remainder of the division truncated towards zero.\<close>

definition c_rem :: "int \<Rightarrow> int \<Rightarrow> int" where
  "c_rem a b = sgn a * (\<bar>a\<bar> mod \<bar>b\<bar>)"

text \<open>\<^verbatim>\<open>static_cast<int>\<close> of a \<^verbatim>\<open>double\<close>, and the implicit conversion: truncation.\<close>

definition c_trunc :: "real \<Rightarrow> int" where
  "c_trunc x = (if 0 \<le> x then \<lfloor>x\<rfloor> else \<lceil>x\<rceil>)"

subsection \<open>\<^verbatim>\<open>Yval\<close>: bin lookup and temperature update\<close>

text \<open>
  Lines 664 to 684 of \<^verbatim>\<open>Yval\<close>: the two quotients are stored, then the lower neighbour is
  raised to \<^verbatim>\<open>T1\<close> and the upper neighbour is lowered to \<^verbatim>\<open>T2\<close>.
\<close>

definition Yval_update :: "int \<Rightarrow> FixStmd \<Rightarrow> FixStmd" where
  "Yval_update i s =
     (let y = Y2 s;
          y = y[nat (i + 1) := y ! nat (i + 1) / (1 - df s * y ! nat (i + 1))];
          y = y[nat (i - 1) := y ! nat (i - 1) / (1 + df s * y ! nat (i - 1))];
          y = (if y ! nat (i - 1) < T1 s then y[nat (i - 1) := T1 s] else y);
          y = (if y ! nat (i + 1) > T2 s then y[nat (i + 1) := T2 s] else y)
      in s\<lparr>Y2 := y\<rparr>)"

text \<open>
  \<^verbatim>\<open>Yval\<close> stores the index in \<^verbatim>\<open>curbin\<close>, rejects \<open>i < 1\<close> and \<open>i > N - 1\<close>, and then
  reads and writes \<^verbatim>\<open>Y2[i+1]\<close> and \<^verbatim>\<open>Y2[i-1]\<close>.  For \<open>i = N - 1\<close> the cell \<^verbatim>\<open>Y2[N]\<close> lies
  behind the array.
\<close>

definition Yval :: "real \<Rightarrow> FixStmd \<Rightarrow> error + (int \<times> FixStmd)" where
  "Yval potE s =
     (let s = s\<lparr>curbin := c_round (potE / bin s) - BinMin s + 1\<rparr>;
          i = curbin s
      in if i < 1 \<or> i > N s - 1 then Inl Histogram_index_out_of_range
         else if N s \<le> i + 1 then Inl Undefined_behaviour
         else Inr (i, Yval_update i s))"

subsection \<open>The small member functions\<close>

text \<open>
  \<^verbatim>\<open>GammaE\<close>: the local temperature by linear interpolation from bin \<open>indx\<close>, and its
  inverse.  (\<open>1 / 0\<close> is \<open>0\<close> in HOL and infinite in C++; no statement below depends on
  \<^verbatim>\<open>Gamma\<close>.)
\<close>

definition GammaE :: "real \<Rightarrow> int \<Rightarrow> FixStmd \<Rightarrow> FixStmd" where
  "GammaE potE indx s =
     (let i = nat indx; im = nat (indx - 1); ip = nat (indx + 1);
          e = potE - real_of_int (c_round (potE / bin s)) * bin s;
          t = (if e > 0 then Y2 s ! i + ((Y2 s ! ip - Y2 s ! i) / bin s) * e
               else if e < 0 then Y2 s ! i + ((Y2 s ! i - Y2 s ! im) / bin s) * e
               else Y2 s ! i)
      in s\<lparr>T := t, Gamma := 1 / t\<rparr>)"

definition AddedEHis :: "int \<Rightarrow> FixStmd \<Rightarrow> FixStmd" where
  "AddedEHis i s =
     s\<lparr>Hist := (Hist s)[nat i := Hist s ! nat i + 1],
       Htot := (Htot s)[nat i := Htot s ! nat i + 1]\<rparr>"

text \<open>\<^verbatim>\<open>for (int i=0; i<N; i++) Hist[i] = 0;\<close>\<close>

definition ResetPH :: "FixStmd \<Rightarrow> FixStmd" where
  "ResetPH s = s\<lparr>Hist := fold (\<lambda>i h. h[i := 0]) [0..<nat (N s)] (Hist s)\<rparr>"

definition TCHK :: "FixStmd \<Rightarrow> FixStmd" where
  "TCHK s = (if Y2 s ! 0 = T1 s then s\<lparr>STG := 2\<rparr> else s)"

subsection \<open>\<^verbatim>\<open>dig\<close>\<close>

text \<open>
  The first loop carries \<^verbatim>\<open>(keepmin, nkeepmin)\<close> and replaces both whenever
  \<^verbatim>\<open>Y2[i] <= keepmin\<close>; the second loop overwrites the cells below \<^verbatim>\<open>nkeepmin\<close>.
\<close>

definition dig_scan :: "real list \<Rightarrow> nat \<Rightarrow> real \<times> nat \<Rightarrow> real \<times> nat" where
  "dig_scan y i kn = (if y ! i \<le> fst kn then (y ! i, i) else kn)"

definition dig :: "FixStmd \<Rightarrow> FixStmd" where
  "dig s =
     (let kn = fold (dig_scan (Y2 s)) [0..<nat (N s)] (Y2 s ! 0, 0);
          keepmin = fst kn; nkeepmin = snd kn
      in s\<lparr>Y2 := fold (\<lambda>i y. y[i := keepmin]) [0..<nkeepmin] (Y2 s)\<rparr>)"

subsection \<open>\<^verbatim>\<open>HCHK\<close>\<close>

text \<open>
  The test of both loops of \<^verbatim>\<open>HCHK\<close>: the bin's temperature lies strictly between the
  cutoffs.
\<close>

definition in_cut :: "FixStmd \<Rightarrow> nat \<Rightarrow> bool" where
  "in_cut s i \<longleftrightarrow> Y2 s ! i > CTmin s \<and> Y2 s ! i < CTmax s"

text \<open>The first loop accumulates \<^verbatim>\<open>(aveH, icnt)\<close>, the second counts \<^verbatim>\<open>ichk\<close>.\<close>

definition HCHK_sum :: "FixStmd \<Rightarrow> nat \<Rightarrow> real \<times> int \<Rightarrow> real \<times> int" where
  "HCHK_sum s i ac =
     (if in_cut s i then (fst ac + real_of_int (Hist s ! i), snd ac + 1) else ac)"

text \<open>
  Modelled from the spec: the declaration of \<^verbatim>\<open>abs\<close> that line 786 calls is in a header
  that is not part of the sources at hand.  The call has a \<^verbatim>\<open>double\<close> argument and
  the result is stored in a \<^verbatim>\<open>double\<close>; it is taken to be the \<^verbatim>\<open>double\<close> overload, the
  real absolute value ("a real-valued relative deviation").
\<close>

definition HCHK_dev :: "FixStmd \<Rightarrow> real \<Rightarrow> nat \<Rightarrow> real" where
  "HCHK_dev s aveH i = \<bar>(real_of_int (Hist s ! i) - aveH) / aveH\<bar>"

definition HCHK_chk :: "FixStmd \<Rightarrow> real \<Rightarrow> nat \<Rightarrow> int \<Rightarrow> int" where
  "HCHK_chk s aveH i ichk =
     (if in_cut s i then (if HCHK_dev s aveH i > HCKtol s then ichk + 1 else ichk)
      else ichk)"

definition HCHK :: "FixStmd \<Rightarrow> FixStmd" where
  "HCHK s =
     (let s = s\<lparr>SWfold := SWf s\<rparr>;
          ac = fold (HCHK_sum s) [0..<nat (N s)] (0, 0);
          aveH = fst ac; icnt = snd ac
      in if icnt = 0 then s
         else
           (let aveH = aveH / real_of_int icnt;
                ichk = fold (HCHK_chk s aveH) [0..<nat (N s)] 0
            in if ichk < 1 then s\<lparr>SWf := SWf s + 1\<rparr> else s))"

subsection \<open>\<^verbatim>\<open>MAIN\<close>\<close>

text \<open>
  \<^verbatim>\<open>log\<close> is the natural logarithm \<open>ln\<close>.  The three stage blocks of \<^verbatim>\<open>MAIN\<close> are run one
  after the other, each under its own test of \<^verbatim>\<open>STG\<close>; they are written as three
  functions, and the branches for the reduction schemes inside them as functions too.

  Stage 3 and 4, scheme \<^verbatim>\<open>hchk\<close> (lines 860 to 888):
\<close>

definition stage3_hchk :: "FixStmd \<Rightarrow> FixStmd" where
  "stage3_hchk s =
     (let s = HCHK s
      in if SWfold s \<noteq> SWf s then
           (let s = (if STG s = 3 then s\<lparr>f := sqrt (f s)\<rparr> else s);
                s = s\<lparr>df := ln (f s) * 0.5 / bin s\<rparr>;
                s = s\<lparr>SWchk := 1\<rparr>;
                s = ResetPH s
            in s\<lparr>CountH := 0\<rparr>)
         else s\<lparr>SWchk := SWchk s + 1\<rparr>)"

text \<open>Stage 3 and 4, the schemes with \<^verbatim>\<open>f_flag > 1\<close> (lines 890 to 906):\<close>

definition stage3_reduce :: "FixStmd \<Rightarrow> FixStmd" where
  "stage3_reduce s =
     (let s = (if STG s = 3 then s\<lparr>f := sqrt (f s)\<rparr> else s);
          s = s\<lparr>df := ln (f s) * 0.5 / bin s\<rparr>;
          s = ResetPH s
      in s\<lparr>CountH := 0\<rparr>)"

text \<open>Lines 849 to 919, entered when \<open>STG \<ge> 3\<close>:\<close>

definition MAIN_stage3 :: "int \<Rightarrow> FixStmd \<Rightarrow> error + FixStmd" where
  "MAIN_stage3 istep s =
     (if TSC2 s = 0 then Inl Undefined_behaviour
      else if c_rem istep (TSC2 s) = 0 then
        (let s = (if f_flag s = 1 then stage3_hchk s else s);
             s = (if f_flag s > 1 then stage3_reduce s else s);
             s = (if f s \<le> finFval s then s\<lparr>STG := 4\<rparr> else s)
         in Inr s)
      else Inr s)"

text \<open>Stage 2, scheme \<^verbatim>\<open>none\<close> (lines 934 to 937):\<close>

definition stage2_none :: "FixStmd \<Rightarrow> FixStmd" where
  "stage2_none s = (let s = ResetPH s in s\<lparr>CountH := 0\<rparr>)"

text \<open>Stage 2, scheme \<^verbatim>\<open>hchk\<close> (lines 940 to 973):\<close>

definition stage2_hchk :: "FixStmd \<Rightarrow> FixStmd" where
  "stage2_hchk s =
     (let s = HCHK s;
          s = (if SWfold s \<noteq> SWf s then
                 (let s = s\<lparr>f := sqrt (f s)\<rparr>;
                      s = s\<lparr>df := ln (f s) * 0.5 / bin s\<rparr>;
                      s = s\<lparr>SWchk := 1\<rparr>;
                      s = ResetPH s
                  in s\<lparr>CountH := 0\<rparr>)
               else s\<lparr>SWchk := SWchk s + 1\<rparr>)
      in if f s \<le> pfinFval s then
           (let s = s\<lparr>STG := 3\<rparr>;
                s = s\<lparr>CountPH := 0\<rparr>;
                s = s\<lparr>SWchk := 1\<rparr>;
                s = ResetPH s
            in s\<lparr>CountH := 0\<rparr>)
         else s)"

text \<open>Stage 2, scheme \<^verbatim>\<open>sqrt\<close> (lines 975 to 984):\<close>

definition stage2_sqrt :: "int \<Rightarrow> FixStmd \<Rightarrow> FixStmd" where
  "stage2_sqrt istep s =
     (let s = (if istep \<noteq> 0 then
                 (let s = s\<lparr>f := sqrt (f s)\<rparr>
                  in s\<lparr>df := ln (f s) * 0.5 / bin s\<rparr>)
               else s);
          s = ResetPH s
      in s\<lparr>CountH := 0\<rparr>)"

text \<open>Stage 2, scheme \<^verbatim>\<open>constant_f\<close> (lines 988 to 998):\<close>

definition stage2_constant_f :: "int \<Rightarrow> FixStmd \<Rightarrow> FixStmd" where
  "stage2_constant_f istep s =
     (let reduce_val = 0.1;
          s = (if istep \<noteq> 0 then
                 (if f s > 1 + 2 * reduce_val
                  then s\<lparr>f := f s - reduce_val * f s\<rparr>
                  else s\<lparr>f := sqrt (f s)\<rparr>)
               else s);
          s = s\<lparr>df := ln (f s) * 0.5 / bin s\<rparr>;
          s = ResetPH s
      in s\<lparr>CountH := 0\<rparr>)"

text \<open>Stage 2, scheme \<^verbatim>\<open>constant_df\<close> (lines 1001 to 1007):\<close>

definition stage2_constant_df :: "int \<Rightarrow> FixStmd \<Rightarrow> FixStmd" where
  "stage2_constant_df istep s =
     (let reduce_val = 0.01
      in if istep \<noteq> 0 then
           (let s = s\<lparr>df := df s - df s * reduce_val\<rparr>
            in s\<lparr>f := exp (2 * bin s * df s)\<rparr>)
         else s)"

text \<open>Lines 924 to 1023, entered when \<open>STG = 2\<close>:\<close>

definition MAIN_stage2 :: "int \<Rightarrow> FixStmd \<Rightarrow> error + FixStmd" where
  "MAIN_stage2 istep s =
     (if TSC2 s = 0 then Inl Undefined_behaviour
      else if c_rem istep (TSC2 s) = 0 then
        (let s = (if f_flag s = 0 then stage2_none s else s);
             s = (if f_flag s = 1 then stage2_hchk s else s);
             s = (if f_flag s = 2 then stage2_sqrt istep s else s);
             s = (if f_flag s = 3 then stage2_constant_f istep s else s);
             s = (if f_flag s = 4 then stage2_constant_df istep s else s)
         in if f s \<le> 1.0 then Inl F_value_less_than_unity
            else if f s \<le> pfinFval s \<and> f_flag s > 1
            then Inr (s\<lparr>STG := 3, CountPH := 0\<rparr>)
            else Inr s)
      else Inr s)"

text \<open>Lines 1027 to 1044, entered when \<open>STG = 1\<close>:\<close>

definition MAIN_stage1 :: "int \<Rightarrow> FixStmd \<Rightarrow> error + FixStmd" where
  "MAIN_stage1 istep s =
     (if TSC1 s = 0 then Inl Undefined_behaviour
      else if c_rem istep (TSC1 s) = 0 then
        (let s = dig s;
             s = TCHK s
         in if STG s > 1 then Inr ((ResetPH s)\<lparr>CountH := 0\<rparr>) else Inr s)
      else Inr s)"

text \<open>Lines 804 to 807: the step counters.\<close>

definition MAIN_count :: "int \<Rightarrow> FixStmd \<Rightarrow> FixStmd" where
  "MAIN_count istep s =
     (let s = s\<lparr>Count := istep\<rparr>;
          s = s\<lparr>totCi := totCi s + 1\<rparr>
      in if STG s \<ge> 3 then s\<lparr>CountPH := CountPH s + 1\<rparr> else s)"

text \<open>Lines 820 to 837: \<^verbatim>\<open>GammaE\<close>, \<^verbatim>\<open>AddedEHis\<close> and the production histogram.\<close>

definition MAIN_hist :: "real \<Rightarrow> int \<Rightarrow> FixStmd \<Rightarrow> FixStmd" where
  "MAIN_hist potE stmdi s =
     (let s = GammaE potE stmdi s;
          s = AddedEHis stmdi s;
          s = s\<lparr>CountH := CountH s + 1\<rparr>
      in if STG s \<ge> 3 then
           (let s = s\<lparr>PROH := (PROH s)[nat stmdi := PROH s ! nat stmdi + 1]\<rparr>
            in s\<lparr>CountPH := CountPH s + 1\<rparr>)
         else s)"

text \<open>Sequencing of two steps, the first of which may abort.\<close>

definition and_then :: "error + 'a \<Rightarrow> ('a \<Rightarrow> error + 'b) \<Rightarrow> error + 'b" where
  "and_then r k = (case r of Inl e \<Rightarrow> Inl e | Inr x \<Rightarrow> k x)"

text \<open>Lines 804 to 837 of \<^verbatim>\<open>MAIN\<close>, up to the histogram output.\<close>

definition MAIN_record :: "int \<Rightarrow> real \<Rightarrow> FixStmd \<Rightarrow> error + FixStmd" where
  "MAIN_record istep potE s =
     and_then (Yval potE (MAIN_count istep s)) (\<lambda>r. Inr (MAIN_hist potE (fst r) (snd r)))"

text \<open>\<^verbatim>\<open>int o = istep % RSTFRQ\<close> on line 840 is evaluated on every step.\<close>

definition MAIN :: "int \<Rightarrow> real \<Rightarrow> FixStmd \<Rightarrow> error + FixStmd" where
  "MAIN istep potE s =
     and_then (MAIN_record istep potE s) (\<lambda>s.
       if RSTFRQ s = 0 then Inl Undefined_behaviour
       else
         and_then (if STG s \<ge> 3 then MAIN_stage3 istep s else Inr s) (\<lambda>s.
         and_then (if STG s = 2 then MAIN_stage2 istep s else Inr s) (\<lambda>s.
         if STG s = 1 then MAIN_stage1 istep s else Inr s)))"

text \<open>A run: \<^verbatim>\<open>MAIN\<close> on each pair of step number and sampled energy, until one aborts.\<close>

fun run :: "FixStmd \<Rightarrow> (int \<times> real) list \<Rightarrow> error + FixStmd" where
  "run s [] = Inr s"
| "run s (x # xs) = and_then (MAIN (fst x) (snd x) s) (\<lambda>s. run s xs)"

subsection \<open>The restart file\<close>

text \<open>
  \<^verbatim>\<open>write_orest\<close> prints \<^verbatim>\<open>STG\<close> with \<^verbatim>\<open>%d\<close> and every other entry with \<^verbatim>\<open>%f\<close>, that is with
  six digits after the decimal point; \<^verbatim>\<open>init\<close> reads the numbers back with \<^verbatim>\<open>>>\<close>.  The file
  is modelled by its length in bytes, which \<^verbatim>\<open>init\<close> tests, and by the numbers that its
  text denotes, in order.  The number that \<^verbatim>\<open>%f\<close> prints for \<open>x\<close> is \<open>x\<close> rounded to a
  multiple of \<open>10\<^sup>-\<^sup>6\<close>, a tie going to the even digit.
\<close>

type_synonym orest_file = "nat \<times> real list"

definition round_half_even :: "real \<Rightarrow> int" where
  "round_half_even x =
     (let fl = \<lfloor>x\<rfloor>; fr = x - real_of_int fl
      in if fr < 1 / 2 then fl else if fr > 1 / 2 then fl + 1
         else if even fl then fl else fl + 1)"

definition print_f :: "real \<Rightarrow> real" where
  "print_f x = real_of_int (round_half_even (x * 1000000)) / 1000000"

fun ndigits :: "nat \<Rightarrow> nat" where
  "ndigits n = (if n < 10 then 1 else Suc (ndigits (n div 10)))"

declare ndigits.simps [simp del]

text \<open>The number of characters of \<^verbatim>\<open>%f\<close> and of \<^verbatim>\<open>%d\<close>: sign, digits, point and six digits.\<close>

definition width_f :: "real \<Rightarrow> nat" where
  "width_f x =
     (if x < 0 then 1 else 0)
     + ndigits (nat (\<bar>round_half_even (x * 1000000)\<bar> div 1000000)) + 7"

definition width_d :: "int \<Rightarrow> nat" where
  "width_d n = (if n < 0 then 1 else 0) + ndigits (nat \<bar>n\<bar>)"

text \<open>The array \<^verbatim>\<open>list\<close> that \<^verbatim>\<open>write_orest\<close> fills (lines 532 to 558).\<close>

definition orest_list :: "FixStmd \<Rightarrow> real list" where
  "orest_list s =
     [real_of_int (STG s), f s, real_of_int (CountH s), real_of_int (SWf s),
      real_of_int (SWfold s), real_of_int (SWchk s), real_of_int (Count s),
      real_of_int (totCi s), real_of_int (CountPH s), T1 s, T2 s, CTmin s, CTmax s]
     @ map (\<lambda>i. Y2 s ! i) [0..<nat (N s)]
     @ map (\<lambda>i. real_of_int (Htot s ! i)) [0..<nat (N s)]
     @ map (\<lambda>i. real_of_int (PROH s ! i)) [0..<nat (N s)]"

text \<open>
  \<^verbatim>\<open>write_orest\<close> on the root process: every \<^verbatim>\<open>RSTFRQ\<close> steps the file is replaced.  Each
  entry is followed by one newline or blank, and each of the three array lines by a
  newline.
\<close>

definition write_orest :: "int \<Rightarrow> FixStmd \<Rightarrow> orest_file \<Rightarrow> error + orest_file" where
  "write_orest ntimestep s file =
     (if RSTFRQ s = 0 then Inl Undefined_behaviour
      else if c_rem ntimestep (RSTFRQ s) = 0 then
        (let list = orest_list s
         in Inr (width_d (STG s) + 1 + sum_list (map (\<lambda>x. width_f x + 1) (tl list)) + 3,
                 real_of_int (STG s) # map print_f (tl list)))
      else Inr file)"

text \<open>
  \<^verbatim>\<open>init\<close>, without the search for the energy compute.  \<open>None\<close> is a restart file that
  does not exist.  A file that passes the test of its length and holds fewer than
  \<^verbatim>\<open>nsize\<close> numbers leaves cells of \<^verbatim>\<open>list\<close> unset.
\<close>

definition init_restart :: "orest_file \<Rightarrow> FixStmd \<Rightarrow> error + FixStmd" where
  "init_restart file s =
     (let numb = 13; nsize = 3 * N s + numb; sz = int (fst file); list = snd file
      in if sz < nsize * 8 then Inl Restart_file_invalid
         else if int (length list) < nsize then Inl Undefined_behaviour
         else
           (let s = s\<lparr>STG := c_trunc (list ! 0)\<rparr>;
                s = s\<lparr>f := list ! 1\<rparr>;
                s = s\<lparr>CountH := c_trunc (list ! 2)\<rparr>;
                s = s\<lparr>SWf := c_trunc (list ! 3)\<rparr>;
                s = s\<lparr>SWfold := c_trunc (list ! 4)\<rparr>;
                s = s\<lparr>SWchk := c_trunc (list ! 5)\<rparr>;
                s = s\<lparr>Count := c_trunc (list ! 6)\<rparr>;
                s = s\<lparr>totCi := c_trunc (list ! 7)\<rparr>;
                s = s\<lparr>CountPH := c_trunc (list ! 8)\<rparr>;
                s = s\<lparr>T1 := list ! 9\<rparr>;
                s = s\<lparr>T2 := list ! 10\<rparr>;
                s = s\<lparr>CTmin := list ! 11\<rparr>;
                s = s\<lparr>CTmax := list ! 12\<rparr>;
                n = nat (N s);
                s = s\<lparr>Y2 := map (\<lambda>i. list ! (13 + i)) [0..<n]\<rparr>;
                s = s\<lparr>Htot := map (\<lambda>i. c_trunc (list ! (13 + n + i))) [0..<n]\<rparr>;
                s = s\<lparr>PROH := map (\<lambda>i. c_trunc (list ! (13 + 2 * n + i))) [0..<n]\<rparr>
            in Inr (s\<lparr>df := ln (f s) * 0.5 / bin s\<rparr>)))"

definition init_fresh :: "FixStmd \<Rightarrow> FixStmd" where
  "init_fresh s =
     (let CutTmin = 50.0; CutTmax = 50.0;
          s = s\<lparr>HCKtol := 0.2, STG := 1, SWf := 1, SWfold := 1, Gamma := 1.0, Count := 0,
                CountH := 0, totCi := 0, SWchk := 1, CountPH := 0, T := ST s\<rparr>;
          s = s\<lparr>pfinFval := exp (dFval3 s * 2 * bin s)\<rparr>;
          s = s\<lparr>finFval := exp (dFval4 s * 2 * bin s)\<rparr>;
          s = s\<lparr>f := exp (initf s * 2 * bin s)\<rparr>;
          s = s\<lparr>df := ln (f s) * 0.5 / bin s\<rparr>;
          s = s\<lparr>T1 := TL s / ST s, T2 := TH s / ST s\<rparr>;
          s = s\<lparr>CTmin := (TL s + CutTmin) / ST s, CTmax := (TH s - CutTmax) / ST s\<rparr>;
          n = nat (N s)
      in s\<lparr>Y2 := replicate n (T2 s), Hist := replicate n 0, Htot := replicate n 0,
           PROH := replicate n 0\<rparr>)"

datatype init_error = Restart_file_does_not_exist | Restart_failed error

definition init :: "orest_file option \<Rightarrow> FixStmd \<Rightarrow> init_error + FixStmd" where
  "init file s =
     (if OREST s \<noteq> 0 \<and> file = None then Inl Restart_file_does_not_exist
      else
        (let s = init_fresh s
         in if OREST s \<noteq> 0 then
              (case init_restart (the file) s of
                 Inl e \<Rightarrow> Inl (Restart_failed e)
               | Inr s \<Rightarrow> Inr s)
            else Inr s))"

subsection \<open>The exchange rule of the tempering command\<close>

text \<open>
  Of the tempering command only the header \<^verbatim>\<open>temper_stmd.h\<close> is at hand.  What a walker
  reports to its partner:
\<close>

record walker =
  T_me :: real
  U_me :: real
  STG_me :: int
  Emin_me :: real
  Emax_me :: real

text \<open>
  Modelled from the spec: the body of \<^verbatim>\<open>TemperStmd::command\<close> (file \<^verbatim>\<open>temper_stmd.cpp\<close>) is
  missing.  Section 4.3, step 4: an exchange is admitted only when both energies lie
  inside the other walker's window and both walkers report a stage of at least the stage
  gate, which is stage 2.  The member \<^verbatim>\<open>EX_flag\<close> of the header switches swaps off (0) or
  on (1).
\<close>

definition stage_gate :: int where
  "stage_gate = 2"

definition exchange_admitted :: "int \<Rightarrow> walker \<Rightarrow> walker \<Rightarrow> bool" where
  "exchange_admitted EX_flag a b \<longleftrightarrow>
     EX_flag \<noteq> 0 \<and>
     Emin_me b \<le> U_me a \<and> U_me a \<le> Emax_me b \<and>
     Emin_me a \<le> U_me b \<and> U_me b \<le> Emax_me a \<and>
     stage_gate \<le> STG_me a \<and> stage_gate \<le> STG_me b"

text \<open>
  Modelled from the spec: the Metropolis factor of section 4.3 and the acceptance with
  probability \<open>min(1, exp \<Delta>)\<close>, decided by a uniform random number \<open>r\<close>.
\<close>

definition metropolis_delta :: "real \<Rightarrow> walker \<Rightarrow> walker \<Rightarrow> real" where
  "metropolis_delta boltz a b = (1 / T_me a - 1 / T_me b) * (U_me a - U_me b) / boltz"

definition exchange_accepted :: "int \<Rightarrow> real \<Rightarrow> real \<Rightarrow> walker \<Rightarrow> walker \<Rightarrow> bool" where
  "exchange_accepted EX_flag boltz r a b \<longleftrightarrow>
     exchange_admitted EX_flag a b \<and> r < min 1 (exp (metropolis_delta boltz a b))"

subsection \<open>The condition under which the table stays clamped\<close>


subsection \<open>A concrete engine\<close>

text \<open>
  Five bins of width 1 from energy 0, reference temperature 300 with the cutoffs 150 and
  600, so that \<^verbatim>\<open>T1\<close> is 0.5 and \<^verbatim>\<open>T2\<close> is 2, and an initial \<^verbatim>\<open>df\<close> of 0.01: the state that
  \<^verbatim>\<open>init\<close> leaves for the arguments \<^verbatim>\<open>1000 sqrt 0.01 0.005 150 600 0 4 1 10 10 300 no\<close>.
\<close>

definition ping :: FixStmd where
  "ping =
     \<lparr>RSTFRQ = 1000, f_flag = 2, TSC1 = 10, TSC2 = 10, OREST = 0, BinMin = 0, N = 5,
      bin = 1, ST = 300, TL = 150, TH = 600, initf = 1 / 100, dFval3 = 5 / 1000,
      dFval4 = 5 / 10000, STG = 1, SWf = 1, SWfold = 1, SWchk = 1, Count = 0, CountH = 0,
      CountPH = 0, totCi = 0, curbin = 0, f = exp (2 / 100), df = 1 / 100, T = 300,
      Gamma = 1, T1 = 1 / 2, T2 = 2, CTmin = 2 / 3, CTmax = 11 / 6, HCKtol = 2 / 10,
      pfinFval = exp (1 / 100), finFval = exp (1 / 1000), Y2 = [2, 2, 2, 2, 2],
      Hist = [0, 0, 0, 0, 0], Htot = [0, 0, 0, 0, 0], PROH = [0, 0, 0, 0, 0]\<rparr>"

text \<open>
  The same engine with a temperature table in which bins 1 and 3 have both been raised
  to \<^verbatim>\<open>T1\<close>, so that the minimum 1/2 is attained twice.
\<close>

definition dig_ties :: FixStmd where
  "dig_ties = ping\<lparr>Y2 := [2, 1 / 2, 3 / 2, 1 / 2, 2]\<rparr>"

text \<open>
  The same engine in stage 3 after seven production steps, in stage 4, and in stage 2 with
  the scheme \<^verbatim>\<open>constant_df\<close> just above the threshold of stage 3 (the arguments
  \<^verbatim>\<open>1000 constant_df 0.00505 0.005 150 600 0 4 1 10 10 300 no\<close>).
\<close>

definition converge :: FixStmd where
  "converge =
     ping\<lparr>STG := 3, f := exp (1 / 100), df := 1 / 200, Y2 := [1 / 2, 1 / 2, 1, 3 / 2, 2],
          Hist := [0, 4, 2, 1, 0], Htot := [0, 40, 20, 10, 0], PROH := [0, 4, 2, 1, 0],
          CountH := 7, CountPH := 14, Count := 70, totCi := 70\<rparr>"

definition production :: FixStmd where
  "production = converge\<lparr>STG := 4, f := exp (1 / 1000), df := 1 / 2000\<rparr>"

definition learn_df :: FixStmd where
  "learn_df =
     ping\<lparr>f_flag := 4, initf := 505 / 100000, STG := 2, f := exp (101 / 10000),
          df := 505 / 100000, Y2 := [1 / 2, 1 / 2, 1, 3 / 2, 2], Hist := [0, 4, 2, 1, 0],
          Htot := [0, 40, 20, 10, 0], CountH := 7, Count := 70, totCi := 70\<rparr>"

text \<open>
  The engine after the step 1 at energy 2, which lowers the temperature of bin 2 to
  \<open>2 / 1.02\<close>, and the same engine built again with the restart option \<^verbatim>\<open>yes\<close>.
\<close>

definition stepped :: FixStmd where
  "stepped =
     ping\<lparr>Count := 1, totCi := 1, CountH := 1, curbin := 3, T := 2, Gamma := 1 / 2,
          Y2 := [2, 2, 100 / 51, 2, 2], Hist := [0, 0, 0, 1, 0], Htot := [0, 0, 0, 1, 0]\<rparr>"

definition restarted :: FixStmd where
  "restarted = ping\<lparr>OREST := 1\<rparr>"

text \<open>Two walkers inside each other's window, the first still in stage 1.\<close>

definition walker_a :: walker where
  "walker_a = \<lparr>T_me = 1, U_me = 2, STG_me = 1, Emin_me = 0, Emax_me = 4\<rparr>"

definition walker_b :: walker where
  "walker_b = \<lparr>T_me = 2, U_me = 1, STG_me = 2, Emin_me = 0, Emax_me = 4\<rparr>"


subsection \<open>The flatness check, as the specification words it\<close>

text \<open>
  Section 4.1 of the specification describes \<^verbatim>\<open>hchk\<close> without loops: the qualifying bins,
  the mean of their counts, the number of qualifying bins whose relative deviation from
  the mean exceeds the tolerance, and the outcome.  These definitions follow that
  wording; they are compared with \<^verbatim>\<open>HCHK\<close> below.
\<close>

definition flat_bins :: "FixStmd \<Rightarrow> nat list" where
  "flat_bins s = filter (\<lambda>i. CTmin s < Y2 s ! i \<and> Y2 s ! i < CTmax s) [0..<nat (N s)]"

definition flat_mean :: "FixStmd \<Rightarrow> real" where
  "flat_mean s =
     sum_list (map (\<lambda>i. real_of_int (Hist s ! i)) (flat_bins s)) / real (length (flat_bins s))"

definition flat_violations :: "FixStmd \<Rightarrow> nat" where
  "flat_violations s =
     length (filter (\<lambda>i. \<bar>real_of_int (Hist s ! i) - flat_mean s\<bar> / flat_mean s > HCKtol s)
               (flat_bins s))"

definition hchk_spec :: "FixStmd \<Rightarrow> FixStmd" where
  "hchk_spec s =
     (if flat_bins s = [] then s\<lparr>SWfold := SWf s\<rparr>
      else if flat_violations s = 0 then s\<lparr>SWfold := SWf s, SWf := SWf s + 1\<rparr>
      else s\<lparr>SWfold := SWf s\<rparr>)"

text \<open>Three bins qualify (temperatures between 2/3 and 11/6), with counts 10, 11 and 9.\<close>

definition flat_example :: FixStmd where
  "flat_example = ping\<lparr>Y2 := [1 / 2, 1, 3 / 2, 5 / 3, 2], Hist := [0, 10, 11, 9, 50]\<rparr>"

section \<open>Properties\<close>

subsection \<open>Loops that fill an array\<close>

lemma fold_fill_length: "length (fold (\<lambda>i y. y[i := v]) [0..<k] y) = length y"
  by (induction k) simp_all

lemma fold_fill_nth:
  "j < length y \<Longrightarrow> fold (\<lambda>i y. y[i := v]) [0..<k] y ! j = (if j < k then v else y ! j)"
  by (induction k) (simp_all add: fold_fill_length nth_list_update less_Suc_eq)

lemma fold_fill_all: "fold (\<lambda>i y. y[i := v]) [0..<length y] y = replicate (length y) v"
  by (rule nth_equalityI) (simp_all add: fold_fill_length fold_fill_nth)

lemma upt_5: "[0..<5] = [0, 1, 2, 3, 4]"
  by (simp add: upt_rec)

lemma ping_sel:
  "N ping = 5" "Y2 ping = [2, 2, 2, 2, 2]" "df ping = 1 / 100" "T1 ping = 1 / 2" "T2 ping = 2"
  by (simp_all add: ping_def)

lemma init_fresh_ping: "init_fresh ping = ping"
  by (simp add: init_fresh_def ping_def numeral_eq_Suc)

lemma dig_ties_sel: "N dig_ties = 5" "Y2 dig_ties = [2, 1 / 2, 3 / 2, 1 / 2, 2]"
  by (simp_all add: dig_ties_def ping_def)

subsection \<open>The bin lookup\<close>

text \<open>
  C1.  The claim: the lookup returns \<open>i = round(U/\<Delta>) - BinMin\<close> and raises the
  out-of-range error exactly when \<open>i\<close> is outside \<open>[1, N - 2]\<close>, so that both neighbours
  are cells of the table.  The source adds 1 to that index and accepts the result up to
  \<open>N - 1\<close>.  In the engine \<open>ping\<close> (five bins of width 1 from energy 0) the energy 3 has
  \<open>round(U/\<Delta>) - BinMin = 3\<close>, inside \<open>[1, N - 2]\<close>; \<^verbatim>\<open>Yval\<close> computes the index \<open>4 = N - 1\<close>,
  raises no out-of-range error and goes on to \<^verbatim>\<open>Y2[5]\<close>, behind the five cells.
\<close>

theorem Yval_last_bin_overrun:
  "c_round (3 / bin ping) - BinMin ping = 3 \<and> 1 \<le> (3::int) \<and> 3 \<le> N ping - 2 \<and>
   Yval 3 ping = Inl Undefined_behaviour \<and>
   c_round (3 / bin ping) - BinMin ping + 1 = N ping - 1"
  by (simp add: Yval_def ping_def c_round_def)

subsection \<open>The temperature update\<close>

lemma Yval_update_Y2:
  "Y2 (Yval_update i s) =
     (let p = nat (i + 1); m = nat (i - 1); y0 = Y2 s;
          y1 = y0[p := y0 ! p / (1 - df s * y0 ! p)];
          y2 = y1[m := y1 ! m / (1 + df s * y1 ! m)];
          y3 = (if y2 ! m < T1 s then y2[m := T1 s] else y2)
      in (if y3 ! p > T2 s then y3[p := T2 s] else y3))"
  by (simp add: Yval_update_def Let_def)

lemma Yval_update_length: "length (Y2 (Yval_update i s)) = length (Y2 s)"
  by (simp add: Yval_update_Y2 Let_def)

lemma Yval_update_entry:
  assumes "1 \<le> i" and "i + 1 < N s" and "length (Y2 s) = nat (N s)" and "j < nat (N s)"
  shows "Y2 (Yval_update i s) ! j =
           (if j = nat (i + 1)
            then min (Y2 s ! nat (i + 1) / (1 - df s * Y2 s ! nat (i + 1))) (T2 s)
            else if j = nat (i - 1)
            then max (Y2 s ! nat (i - 1) / (1 + df s * Y2 s ! nat (i - 1))) (T1 s)
            else Y2 s ! j)"
proof -
  define p where "p = nat (i + 1)"
  define m where "m = nat (i - 1)"
  define y0 where "y0 = Y2 s"
  have b: "p < length y0" "m < length y0" "p \<noteq> m" "j < length y0"
    using assms by (auto simp: p_def m_def y0_def)
  have e: "Y2 (Yval_update i s) =
     (let y1 = y0[p := y0 ! p / (1 - df s * y0 ! p)];
          y2 = y1[m := y1 ! m / (1 + df s * y1 ! m)];
          y3 = (if y2 ! m < T1 s then y2[m := T1 s] else y2)
      in (if y3 ! p > T2 s then y3[p := T2 s] else y3))"
    by (simp add: Yval_update_Y2 p_def m_def y0_def Let_def)
  show ?thesis
    unfolding e p_def [symmetric] m_def [symmetric] y0_def [symmetric]
    using b by (auto simp: Let_def min_def max_def)
qed

text \<open>
  C2.  For an interior index \<open>i\<close> (with \<open>1 \<le> i\<close> and \<open>i + 1 < N\<close>) and any table of \<open>N\<close>
  cells, the update of \<^verbatim>\<open>Yval\<close> stores in cell \<open>i + 1\<close> the quotient
  \<open>Y[i+1] / (1 - df \<cdot> Y[i+1])\<close> lowered to at most \<open>T2\<close>, in cell \<open>i - 1\<close> the quotient
  \<open>Y[i-1] / (1 + df \<cdot> Y[i-1])\<close> raised to at least \<open>T1\<close>, and leaves cell \<open>i\<close> and every
  other cell as it was.  The two denominators are taken to be nonzero, so that the
  quotients are real numbers.
\<close>

theorem Yval_update_neighbours:
  assumes "1 \<le> i" and "i + 1 < N s" and "length (Y2 s) = nat (N s)"
    and "1 - df s * Y2 s ! nat (i + 1) \<noteq> 0" and "1 + df s * Y2 s ! nat (i - 1) \<noteq> 0"
  shows "Y2 (Yval_update i s) ! nat (i + 1)
           = min (Y2 s ! nat (i + 1) / (1 - df s * Y2 s ! nat (i + 1))) (T2 s) \<and>
         Y2 (Yval_update i s) ! nat (i - 1)
           = max (Y2 s ! nat (i - 1) / (1 + df s * Y2 s ! nat (i - 1))) (T1 s) \<and>
         Y2 (Yval_update i s) ! nat i = Y2 s ! nat i \<and>
         length (Y2 (Yval_update i s)) = length (Y2 s) \<and>
         (\<forall>j<length (Y2 s). j \<noteq> nat (i + 1) \<and> j \<noteq> nat (i - 1) \<longrightarrow>
            Y2 (Yval_update i s) ! j = Y2 s ! j)"
proof -
  have b: "nat (i + 1) < nat (N s)" "nat (i - 1) < nat (N s)" "nat i < nat (N s)"
    "nat i \<noteq> nat (i + 1)" "nat i \<noteq> nat (i - 1)" "nat (i - 1) \<noteq> nat (i + 1)"
    using assms(1,2) by auto
  note e = Yval_update_entry [OF assms(1-3)]
  have "Y2 (Yval_update i s) ! nat (i + 1)
          = min (Y2 s ! nat (i + 1) / (1 - df s * Y2 s ! nat (i + 1))) (T2 s)"
    using e [OF b(1)] by simp
  moreover have "Y2 (Yval_update i s) ! nat (i - 1)
          = max (Y2 s ! nat (i - 1) / (1 + df s * Y2 s ! nat (i - 1))) (T1 s)"
    using e [OF b(2)] b(6) by simp
  moreover have "Y2 (Yval_update i s) ! nat i = Y2 s ! nat i"
    using e [OF b(3)] b(4,5) by simp
  moreover have "\<forall>j<length (Y2 s). j \<noteq> nat (i + 1) \<and> j \<noteq> nat (i - 1) \<longrightarrow>
            Y2 (Yval_update i s) ! j = Y2 s ! j"
    using e assms(3) by simp
  ultimately show ?thesis by (simp add: Yval_update_length)
qed

theorem Yval_update_neighbours_witness:
  "Y2 (Yval_update 2 ping) ! 3 = 2 \<and> Y2 (Yval_update 2 ping) ! 1 = 100 / 51 \<and>
   Y2 (Yval_update 2 ping) ! 2 = 2 \<and> Y2 (Yval_update 2 ping) ! 0 = 2 \<and>
   Y2 (Yval_update 2 ping) ! 4 = 2"
proof -
  have h: "(1::int) \<le> 2" "(2::int) + 1 < N ping" "length (Y2 ping) = nat (N ping)"
    "1 - df ping * Y2 ping ! nat (2 + 1) \<noteq> 0" "1 + df ping * Y2 ping ! nat (2 - 1) \<noteq> 0"
    by (simp_all add: ping_sel)
  have n: "nat (2 + 1) = 3" "nat (2 - 1) = 1" "nat 2 = 2" by simp_all
  from Yval_update_neighbours [OF h] show ?thesis
    unfolding n by (simp add: ping_sel)
qed

subsection \<open>Digging\<close>

lemma dig_scan_fold:
  "fold (dig_scan y) [0..<n] (y ! 0, 0) = (m, k) \<Longrightarrow>
     m = y ! k \<and> (k < n \<or> k = 0) \<and> (\<forall>j<n. y ! k \<le> y ! j) \<and> (\<forall>j<n. k < j \<longrightarrow> y ! k < y ! j)"
proof (induction n arbitrary: m k)
  case 0
  then show ?case by simp
next
  case (Suc n)
  obtain m' k' where p: "fold (dig_scan y) [0..<n] (y ! 0, 0) = (m', k')"
    by (cases "fold (dig_scan y) [0..<n] (y ! 0, 0)")
  from Suc.IH [OF p] have ih: "m' = y ! k'" "k' < n \<or> k' = 0" "\<forall>j<n. y ! k' \<le> y ! j"
    "\<forall>j<n. k' < j \<longrightarrow> y ! k' < y ! j" by simp_all
  from Suc.prems p have step: "dig_scan y n (m', k') = (m, k)" by simp
  show ?case
  proof (cases "y ! n \<le> m'")
    case True
    with step have "m = y ! n" "k = n" by (auto simp: dig_scan_def)
    with True ih show ?thesis by (auto simp: less_Suc_eq)
  next
    case False
    with step have "m = m'" "k = k'" by (auto simp: dig_scan_def)
    with False ih show ?thesis by (auto simp: less_Suc_eq)
  qed
qed

text \<open>
  C8, as stated: \<^verbatim>\<open>dig\<close> takes the smallest index attaining the minimum and leaves the
  bins at and above it unchanged.  In \<open>dig_ties\<close> the minimum 1/2 is attained first in bin
  1, and \<^verbatim>\<open>dig\<close> overwrites bin 2, which holds 3/2.
\<close>

theorem dig_first_minimum_counterexample:
  "Y2 dig_ties ! 1 < Y2 dig_ties ! 0 \<and> Y2 dig_ties ! 1 \<le> Y2 dig_ties ! 2 \<and>
   Y2 dig_ties ! 1 \<le> Y2 dig_ties ! 3 \<and> Y2 dig_ties ! 1 \<le> Y2 dig_ties ! 4 \<and>
   Y2 (dig dig_ties) ! 2 \<noteq> Y2 dig_ties ! 2 \<and>
   Y2 (dig dig_ties) = [1 / 2, 1 / 2, 1 / 2, 1 / 2, 2]"
  by (simp add: dig_def dig_ties_sel upt_5 dig_scan_def upt_rec)


text \<open>
  C8, amended.  The test \<^verbatim>\<open>Y2[i] <= keepmin\<close> moves to every later bin that is as low, so
  for a table of \<open>N > 0\<close> cells \<^verbatim>\<open>dig\<close> takes the largest index \<open>k\<close> attaining the minimum
  (every later bin is strictly higher), assigns that minimum to every bin below \<open>k\<close>, and
  leaves the bins at and above \<open>k\<close> unchanged.
\<close>

theorem dig_last_minimum:
  assumes "length (Y2 s) = nat (N s)" and "0 < N s"
  shows "\<exists>k<nat (N s).
           (\<forall>j<nat (N s). Y2 s ! k \<le> Y2 s ! j) \<and>
           (\<forall>j<nat (N s). k < j \<longrightarrow> Y2 s ! k < Y2 s ! j) \<and>
           length (Y2 (dig s)) = nat (N s) \<and>
           (\<forall>j<nat (N s). Y2 (dig s) ! j = (if j < k then Y2 s ! k else Y2 s ! j))"
proof -
  obtain m k where p: "fold (dig_scan (Y2 s)) [0..<nat (N s)] (Y2 s ! 0, 0) = (m, k)"
    by (cases "fold (dig_scan (Y2 s)) [0..<nat (N s)] (Y2 s ! 0, 0)")
  note q = dig_scan_fold [OF p]
  have d: "Y2 (dig s) = fold (\<lambda>i y. y[i := m]) [0..<k] (Y2 s)"
    by (simp add: dig_def p Let_def)
  have "k < nat (N s)" using q assms(2) by auto
  moreover have "length (Y2 (dig s)) = nat (N s)" by (simp add: d fold_fill_length assms(1))
  moreover have "\<forall>j<nat (N s). Y2 (dig s) ! j = (if j < k then Y2 s ! k else Y2 s ! j)"
    using q by (simp add: d fold_fill_nth assms(1))
  ultimately show ?thesis using q by blast
qed

theorem dig_last_minimum_witness:
  "Y2 (dig dig_ties) ! 0 = 1 / 2 \<and> Y2 (dig dig_ties) ! 1 = 1 / 2 \<and>
   Y2 (dig dig_ties) ! 2 = 1 / 2 \<and> Y2 (dig dig_ties) ! 3 = 1 / 2 \<and>
   Y2 (dig dig_ties) ! 4 = 2 \<and> length (Y2 (dig dig_ties)) = 5"
proof -
  have h: "length (Y2 dig_ties) = nat (N dig_ties)" "0 < N dig_ties"
    by (simp_all add: dig_ties_sel)
  from dig_last_minimum [OF h] obtain k where k: "k < 5"
    "\<forall>j<5. Y2 dig_ties ! k \<le> Y2 dig_ties ! j"
    "\<forall>j<5. k < j \<longrightarrow> Y2 dig_ties ! k < Y2 dig_ties ! j"
    "length (Y2 (dig dig_ties)) = 5"
    "\<forall>j<5. Y2 (dig dig_ties) ! j = (if j < k then Y2 dig_ties ! k else Y2 dig_ties ! j)"
    by (auto simp: dig_ties_sel)
  from k(1) have c: "k = 0 \<or> k = 1 \<or> k = 2 \<or> k = 3 \<or> k = 4" by arith
  from k(2) have a: "Y2 dig_ties ! k \<le> Y2 dig_ties ! 1" by simp
  from k(3) have b: "k < 3 \<longrightarrow> Y2 dig_ties ! k < Y2 dig_ties ! 3" by simp
  from a b c have "k = 3" by (auto simp: dig_ties_sel)
  with k(4,5) show ?thesis by (simp add: dig_ties_sel)
qed

subsection \<open>Fields that a member function leaves alone\<close>

lemma Yval_update_frame [simp]:
  "RSTFRQ (Yval_update i s) = RSTFRQ s" "f_flag (Yval_update i s) = f_flag s"
  "TSC1 (Yval_update i s) = TSC1 s" "TSC2 (Yval_update i s) = TSC2 s"
  "OREST (Yval_update i s) = OREST s" "BinMin (Yval_update i s) = BinMin s"
  "N (Yval_update i s) = N s" "bin (Yval_update i s) = bin s" "ST (Yval_update i s) = ST s"
  "TL (Yval_update i s) = TL s" "TH (Yval_update i s) = TH s"
  "initf (Yval_update i s) = initf s" "dFval3 (Yval_update i s) = dFval3 s"
  "dFval4 (Yval_update i s) = dFval4 s" "STG (Yval_update i s) = STG s"
  "SWf (Yval_update i s) = SWf s" "SWfold (Yval_update i s) = SWfold s"
  "SWchk (Yval_update i s) = SWchk s" "Count (Yval_update i s) = Count s"
  "CountH (Yval_update i s) = CountH s" "CountPH (Yval_update i s) = CountPH s"
  "totCi (Yval_update i s) = totCi s" "curbin (Yval_update i s) = curbin s"
  "f (Yval_update i s) = f s" "df (Yval_update i s) = df s" "T (Yval_update i s) = T s"
  "Gamma (Yval_update i s) = Gamma s" "T1 (Yval_update i s) = T1 s"
  "T2 (Yval_update i s) = T2 s" "CTmin (Yval_update i s) = CTmin s"
  "CTmax (Yval_update i s) = CTmax s" "HCKtol (Yval_update i s) = HCKtol s"
  "pfinFval (Yval_update i s) = pfinFval s" "finFval (Yval_update i s) = finFval s"
  "Hist (Yval_update i s) = Hist s" "Htot (Yval_update i s) = Htot s"
  "PROH (Yval_update i s) = PROH s"
  by (simp_all add: Yval_update_def Let_def)

lemma GammaE_frame [simp]:
  "RSTFRQ (GammaE potE i s) = RSTFRQ s" "f_flag (GammaE potE i s) = f_flag s"
  "TSC1 (GammaE potE i s) = TSC1 s" "TSC2 (GammaE potE i s) = TSC2 s"
  "OREST (GammaE potE i s) = OREST s" "BinMin (GammaE potE i s) = BinMin s"
  "N (GammaE potE i s) = N s" "bin (GammaE potE i s) = bin s" "ST (GammaE potE i s) = ST s"
  "TL (GammaE potE i s) = TL s" "TH (GammaE potE i s) = TH s"
  "initf (GammaE potE i s) = initf s" "dFval3 (GammaE potE i s) = dFval3 s"
  "dFval4 (GammaE potE i s) = dFval4 s" "STG (GammaE potE i s) = STG s"
  "SWf (GammaE potE i s) = SWf s" "SWfold (GammaE potE i s) = SWfold s"
  "SWchk (GammaE potE i s) = SWchk s" "Count (GammaE potE i s) = Count s"
  "CountH (GammaE potE i s) = CountH s" "CountPH (GammaE potE i s) = CountPH s"
  "totCi (GammaE potE i s) = totCi s" "curbin (GammaE potE i s) = curbin s"
  "f (GammaE potE i s) = f s" "df (GammaE potE i s) = df s" "T1 (GammaE potE i s) = T1 s"
  "T2 (GammaE potE i s) = T2 s" "CTmin (GammaE potE i s) = CTmin s"
  "CTmax (GammaE potE i s) = CTmax s" "HCKtol (GammaE potE i s) = HCKtol s"
  "pfinFval (GammaE potE i s) = pfinFval s" "finFval (GammaE potE i s) = finFval s"
  "Y2 (GammaE potE i s) = Y2 s" "Hist (GammaE potE i s) = Hist s"
  "Htot (GammaE potE i s) = Htot s" "PROH (GammaE potE i s) = PROH s"
  by (simp_all add: GammaE_def Let_def)

lemma AddedEHis_frame [simp]:
  "RSTFRQ (AddedEHis i s) = RSTFRQ s" "f_flag (AddedEHis i s) = f_flag s"
  "TSC1 (AddedEHis i s) = TSC1 s" "TSC2 (AddedEHis i s) = TSC2 s"
  "OREST (AddedEHis i s) = OREST s" "BinMin (AddedEHis i s) = BinMin s"
  "N (AddedEHis i s) = N s" "bin (AddedEHis i s) = bin s" "ST (AddedEHis i s) = ST s"
  "TL (AddedEHis i s) = TL s" "TH (AddedEHis i s) = TH s" "initf (AddedEHis i s) = initf s"
  "dFval3 (AddedEHis i s) = dFval3 s" "dFval4 (AddedEHis i s) = dFval4 s"
  "STG (AddedEHis i s) = STG s" "SWf (AddedEHis i s) = SWf s"
  "SWfold (AddedEHis i s) = SWfold s" "SWchk (AddedEHis i s) = SWchk s"
  "Count (AddedEHis i s) = Count s" "CountH (AddedEHis i s) = CountH s"
  "CountPH (AddedEHis i s) = CountPH s" "totCi (AddedEHis i s) = totCi s"
  "curbin (AddedEHis i s) = curbin s" "f (AddedEHis i s) = f s" "df (AddedEHis i s) = df s"
  "T (AddedEHis i s) = T s" "Gamma (AddedEHis i s) = Gamma s" "T1 (AddedEHis i s) = T1 s"
  "T2 (AddedEHis i s) = T2 s" "CTmin (AddedEHis i s) = CTmin s"
  "CTmax (AddedEHis i s) = CTmax s" "HCKtol (AddedEHis i s) = HCKtol s"
  "pfinFval (AddedEHis i s) = pfinFval s" "finFval (AddedEHis i s) = finFval s"
  "Y2 (AddedEHis i s) = Y2 s" "PROH (AddedEHis i s) = PROH s"
  by (simp_all add: AddedEHis_def Let_def)

lemma ResetPH_frame [simp]:
  "RSTFRQ (ResetPH s) = RSTFRQ s" "f_flag (ResetPH s) = f_flag s"
  "TSC1 (ResetPH s) = TSC1 s" "TSC2 (ResetPH s) = TSC2 s" "OREST (ResetPH s) = OREST s"
  "BinMin (ResetPH s) = BinMin s" "N (ResetPH s) = N s" "bin (ResetPH s) = bin s"
  "ST (ResetPH s) = ST s" "TL (ResetPH s) = TL s" "TH (ResetPH s) = TH s"
  "initf (ResetPH s) = initf s" "dFval3 (ResetPH s) = dFval3 s"
  "dFval4 (ResetPH s) = dFval4 s" "STG (ResetPH s) = STG s" "SWf (ResetPH s) = SWf s"
  "SWfold (ResetPH s) = SWfold s" "SWchk (ResetPH s) = SWchk s"
  "Count (ResetPH s) = Count s" "CountH (ResetPH s) = CountH s"
  "CountPH (ResetPH s) = CountPH s" "totCi (ResetPH s) = totCi s"
  "curbin (ResetPH s) = curbin s" "f (ResetPH s) = f s" "df (ResetPH s) = df s"
  "T (ResetPH s) = T s" "Gamma (ResetPH s) = Gamma s" "T1 (ResetPH s) = T1 s"
  "T2 (ResetPH s) = T2 s" "CTmin (ResetPH s) = CTmin s" "CTmax (ResetPH s) = CTmax s"
  "HCKtol (ResetPH s) = HCKtol s" "pfinFval (ResetPH s) = pfinFval s"
  "finFval (ResetPH s) = finFval s" "Y2 (ResetPH s) = Y2 s" "Htot (ResetPH s) = Htot s"
  "PROH (ResetPH s) = PROH s"
  by (simp_all add: ResetPH_def Let_def)

lemma TCHK_frame [simp]:
  "RSTFRQ (TCHK s) = RSTFRQ s" "f_flag (TCHK s) = f_flag s" "TSC1 (TCHK s) = TSC1 s"
  "TSC2 (TCHK s) = TSC2 s" "OREST (TCHK s) = OREST s" "BinMin (TCHK s) = BinMin s"
  "N (TCHK s) = N s" "bin (TCHK s) = bin s" "ST (TCHK s) = ST s" "TL (TCHK s) = TL s"
  "TH (TCHK s) = TH s" "initf (TCHK s) = initf s" "dFval3 (TCHK s) = dFval3 s"
  "dFval4 (TCHK s) = dFval4 s" "SWf (TCHK s) = SWf s" "SWfold (TCHK s) = SWfold s"
  "SWchk (TCHK s) = SWchk s" "Count (TCHK s) = Count s" "CountH (TCHK s) = CountH s"
  "CountPH (TCHK s) = CountPH s" "totCi (TCHK s) = totCi s" "curbin (TCHK s) = curbin s"
  "f (TCHK s) = f s" "df (TCHK s) = df s" "T (TCHK s) = T s" "Gamma (TCHK s) = Gamma s"
  "T1 (TCHK s) = T1 s" "T2 (TCHK s) = T2 s" "CTmin (TCHK s) = CTmin s"
  "CTmax (TCHK s) = CTmax s" "HCKtol (TCHK s) = HCKtol s" "pfinFval (TCHK s) = pfinFval s"
  "finFval (TCHK s) = finFval s" "Y2 (TCHK s) = Y2 s" "Hist (TCHK s) = Hist s"
  "Htot (TCHK s) = Htot s" "PROH (TCHK s) = PROH s"
  by (simp_all add: TCHK_def Let_def)

lemma dig_frame [simp]:
  "RSTFRQ (dig s) = RSTFRQ s" "f_flag (dig s) = f_flag s" "TSC1 (dig s) = TSC1 s"
  "TSC2 (dig s) = TSC2 s" "OREST (dig s) = OREST s" "BinMin (dig s) = BinMin s"
  "N (dig s) = N s" "bin (dig s) = bin s" "ST (dig s) = ST s" "TL (dig s) = TL s"
  "TH (dig s) = TH s" "initf (dig s) = initf s" "dFval3 (dig s) = dFval3 s"
  "dFval4 (dig s) = dFval4 s" "STG (dig s) = STG s" "SWf (dig s) = SWf s"
  "SWfold (dig s) = SWfold s" "SWchk (dig s) = SWchk s" "Count (dig s) = Count s"
  "CountH (dig s) = CountH s" "CountPH (dig s) = CountPH s" "totCi (dig s) = totCi s"
  "curbin (dig s) = curbin s" "f (dig s) = f s" "df (dig s) = df s" "T (dig s) = T s"
  "Gamma (dig s) = Gamma s" "T1 (dig s) = T1 s" "T2 (dig s) = T2 s"
  "CTmin (dig s) = CTmin s" "CTmax (dig s) = CTmax s" "HCKtol (dig s) = HCKtol s"
  "pfinFval (dig s) = pfinFval s" "finFval (dig s) = finFval s" "Hist (dig s) = Hist s"
  "Htot (dig s) = Htot s" "PROH (dig s) = PROH s"
  by (simp_all add: dig_def Let_def)

lemma HCHK_frame [simp]:
  "RSTFRQ (HCHK s) = RSTFRQ s" "f_flag (HCHK s) = f_flag s" "TSC1 (HCHK s) = TSC1 s"
  "TSC2 (HCHK s) = TSC2 s" "OREST (HCHK s) = OREST s" "BinMin (HCHK s) = BinMin s"
  "N (HCHK s) = N s" "bin (HCHK s) = bin s" "ST (HCHK s) = ST s" "TL (HCHK s) = TL s"
  "TH (HCHK s) = TH s" "initf (HCHK s) = initf s" "dFval3 (HCHK s) = dFval3 s"
  "dFval4 (HCHK s) = dFval4 s" "STG (HCHK s) = STG s" "SWchk (HCHK s) = SWchk s"
  "Count (HCHK s) = Count s" "CountH (HCHK s) = CountH s" "CountPH (HCHK s) = CountPH s"
  "totCi (HCHK s) = totCi s" "curbin (HCHK s) = curbin s" "f (HCHK s) = f s"
  "df (HCHK s) = df s" "T (HCHK s) = T s" "Gamma (HCHK s) = Gamma s" "T1 (HCHK s) = T1 s"
  "T2 (HCHK s) = T2 s" "CTmin (HCHK s) = CTmin s" "CTmax (HCHK s) = CTmax s"
  "HCKtol (HCHK s) = HCKtol s" "pfinFval (HCHK s) = pfinFval s"
  "finFval (HCHK s) = finFval s" "Y2 (HCHK s) = Y2 s" "Hist (HCHK s) = Hist s"
  "Htot (HCHK s) = Htot s" "PROH (HCHK s) = PROH s"
  by (simp_all add: HCHK_def Let_def)

lemma MAIN_count_frame [simp]:
  "RSTFRQ (MAIN_count istep s) = RSTFRQ s" "f_flag (MAIN_count istep s) = f_flag s"
  "TSC1 (MAIN_count istep s) = TSC1 s" "TSC2 (MAIN_count istep s) = TSC2 s"
  "OREST (MAIN_count istep s) = OREST s" "BinMin (MAIN_count istep s) = BinMin s"
  "N (MAIN_count istep s) = N s" "bin (MAIN_count istep s) = bin s"
  "ST (MAIN_count istep s) = ST s" "TL (MAIN_count istep s) = TL s"
  "TH (MAIN_count istep s) = TH s" "initf (MAIN_count istep s) = initf s"
  "dFval3 (MAIN_count istep s) = dFval3 s" "dFval4 (MAIN_count istep s) = dFval4 s"
  "STG (MAIN_count istep s) = STG s" "SWf (MAIN_count istep s) = SWf s"
  "SWfold (MAIN_count istep s) = SWfold s" "SWchk (MAIN_count istep s) = SWchk s"
  "CountH (MAIN_count istep s) = CountH s" "curbin (MAIN_count istep s) = curbin s"
  "f (MAIN_count istep s) = f s" "df (MAIN_count istep s) = df s"
  "T (MAIN_count istep s) = T s" "Gamma (MAIN_count istep s) = Gamma s"
  "T1 (MAIN_count istep s) = T1 s" "T2 (MAIN_count istep s) = T2 s"
  "CTmin (MAIN_count istep s) = CTmin s" "CTmax (MAIN_count istep s) = CTmax s"
  "HCKtol (MAIN_count istep s) = HCKtol s" "pfinFval (MAIN_count istep s) = pfinFval s"
  "finFval (MAIN_count istep s) = finFval s" "Y2 (MAIN_count istep s) = Y2 s"
  "Hist (MAIN_count istep s) = Hist s" "Htot (MAIN_count istep s) = Htot s"
  "PROH (MAIN_count istep s) = PROH s"
  by (simp_all add: MAIN_count_def Let_def)

lemma MAIN_hist_frame [simp]:
  "RSTFRQ (MAIN_hist potE i s) = RSTFRQ s" "f_flag (MAIN_hist potE i s) = f_flag s"
  "TSC1 (MAIN_hist potE i s) = TSC1 s" "TSC2 (MAIN_hist potE i s) = TSC2 s"
  "OREST (MAIN_hist potE i s) = OREST s" "BinMin (MAIN_hist potE i s) = BinMin s"
  "N (MAIN_hist potE i s) = N s" "bin (MAIN_hist potE i s) = bin s"
  "ST (MAIN_hist potE i s) = ST s" "TL (MAIN_hist potE i s) = TL s"
  "TH (MAIN_hist potE i s) = TH s" "initf (MAIN_hist potE i s) = initf s"
  "dFval3 (MAIN_hist potE i s) = dFval3 s" "dFval4 (MAIN_hist potE i s) = dFval4 s"
  "STG (MAIN_hist potE i s) = STG s" "SWf (MAIN_hist potE i s) = SWf s"
  "SWfold (MAIN_hist potE i s) = SWfold s" "SWchk (MAIN_hist potE i s) = SWchk s"
  "Count (MAIN_hist potE i s) = Count s" "totCi (MAIN_hist potE i s) = totCi s"
  "curbin (MAIN_hist potE i s) = curbin s" "f (MAIN_hist potE i s) = f s"
  "df (MAIN_hist potE i s) = df s" "T1 (MAIN_hist potE i s) = T1 s"
  "T2 (MAIN_hist potE i s) = T2 s" "CTmin (MAIN_hist potE i s) = CTmin s"
  "CTmax (MAIN_hist potE i s) = CTmax s" "HCKtol (MAIN_hist potE i s) = HCKtol s"
  "pfinFval (MAIN_hist potE i s) = pfinFval s" "finFval (MAIN_hist potE i s) = finFval s"
  "Y2 (MAIN_hist potE i s) = Y2 s"
  by (simp_all add: MAIN_hist_def Let_def GammaE_def AddedEHis_def)

lemma stage3_hchk_frame [simp]:
  "RSTFRQ (stage3_hchk s) = RSTFRQ s" "f_flag (stage3_hchk s) = f_flag s"
  "TSC1 (stage3_hchk s) = TSC1 s" "TSC2 (stage3_hchk s) = TSC2 s"
  "OREST (stage3_hchk s) = OREST s" "BinMin (stage3_hchk s) = BinMin s"
  "N (stage3_hchk s) = N s" "bin (stage3_hchk s) = bin s" "ST (stage3_hchk s) = ST s"
  "TL (stage3_hchk s) = TL s" "TH (stage3_hchk s) = TH s" "initf (stage3_hchk s) = initf s"
  "dFval3 (stage3_hchk s) = dFval3 s" "dFval4 (stage3_hchk s) = dFval4 s"
  "STG (stage3_hchk s) = STG s" "Count (stage3_hchk s) = Count s"
  "CountPH (stage3_hchk s) = CountPH s" "totCi (stage3_hchk s) = totCi s"
  "curbin (stage3_hchk s) = curbin s" "T (stage3_hchk s) = T s"
  "Gamma (stage3_hchk s) = Gamma s" "T1 (stage3_hchk s) = T1 s" "T2 (stage3_hchk s) = T2 s"
  "CTmin (stage3_hchk s) = CTmin s" "CTmax (stage3_hchk s) = CTmax s"
  "HCKtol (stage3_hchk s) = HCKtol s" "pfinFval (stage3_hchk s) = pfinFval s"
  "finFval (stage3_hchk s) = finFval s" "Y2 (stage3_hchk s) = Y2 s"
  "Htot (stage3_hchk s) = Htot s" "PROH (stage3_hchk s) = PROH s"
  by (simp_all add: stage3_hchk_def Let_def)

lemma stage3_reduce_frame [simp]:
  "RSTFRQ (stage3_reduce s) = RSTFRQ s" "f_flag (stage3_reduce s) = f_flag s"
  "TSC1 (stage3_reduce s) = TSC1 s" "TSC2 (stage3_reduce s) = TSC2 s"
  "OREST (stage3_reduce s) = OREST s" "BinMin (stage3_reduce s) = BinMin s"
  "N (stage3_reduce s) = N s" "bin (stage3_reduce s) = bin s" "ST (stage3_reduce s) = ST s"
  "TL (stage3_reduce s) = TL s" "TH (stage3_reduce s) = TH s"
  "initf (stage3_reduce s) = initf s" "dFval3 (stage3_reduce s) = dFval3 s"
  "dFval4 (stage3_reduce s) = dFval4 s" "STG (stage3_reduce s) = STG s"
  "SWf (stage3_reduce s) = SWf s" "SWfold (stage3_reduce s) = SWfold s"
  "SWchk (stage3_reduce s) = SWchk s" "Count (stage3_reduce s) = Count s"
  "CountPH (stage3_reduce s) = CountPH s" "totCi (stage3_reduce s) = totCi s"
  "curbin (stage3_reduce s) = curbin s" "T (stage3_reduce s) = T s"
  "Gamma (stage3_reduce s) = Gamma s" "T1 (stage3_reduce s) = T1 s"
  "T2 (stage3_reduce s) = T2 s" "CTmin (stage3_reduce s) = CTmin s"
  "CTmax (stage3_reduce s) = CTmax s" "HCKtol (stage3_reduce s) = HCKtol s"
  "pfinFval (stage3_reduce s) = pfinFval s" "finFval (stage3_reduce s) = finFval s"
  "Y2 (stage3_reduce s) = Y2 s" "Htot (stage3_reduce s) = Htot s"
  "PROH (stage3_reduce s) = PROH s"
  by (simp_all add: stage3_reduce_def Let_def)

lemma stage2_none_frame [simp]:
  "RSTFRQ (stage2_none s) = RSTFRQ s" "f_flag (stage2_none s) = f_flag s"
  "TSC1 (stage2_none s) = TSC1 s" "TSC2 (stage2_none s) = TSC2 s"
  "OREST (stage2_none s) = OREST s" "BinMin (stage2_none s) = BinMin s"
  "N (stage2_none s) = N s" "bin (stage2_none s) = bin s" "ST (stage2_none s) = ST s"
  "TL (stage2_none s) = TL s" "TH (stage2_none s) = TH s" "initf (stage2_none s) = initf s"
  "dFval3 (stage2_none s) = dFval3 s" "dFval4 (stage2_none s) = dFval4 s"
  "STG (stage2_none s) = STG s" "SWf (stage2_none s) = SWf s"
  "SWfold (stage2_none s) = SWfold s" "SWchk (stage2_none s) = SWchk s"
  "Count (stage2_none s) = Count s" "CountPH (stage2_none s) = CountPH s"
  "totCi (stage2_none s) = totCi s" "curbin (stage2_none s) = curbin s"
  "f (stage2_none s) = f s" "df (stage2_none s) = df s" "T (stage2_none s) = T s"
  "Gamma (stage2_none s) = Gamma s" "T1 (stage2_none s) = T1 s" "T2 (stage2_none s) = T2 s"
  "CTmin (stage2_none s) = CTmin s" "CTmax (stage2_none s) = CTmax s"
  "HCKtol (stage2_none s) = HCKtol s" "pfinFval (stage2_none s) = pfinFval s"
  "finFval (stage2_none s) = finFval s" "Y2 (stage2_none s) = Y2 s"
  "Htot (stage2_none s) = Htot s" "PROH (stage2_none s) = PROH s"
  by (simp_all add: stage2_none_def Let_def)

lemma stage2_hchk_frame [simp]:
  "RSTFRQ (stage2_hchk s) = RSTFRQ s" "f_flag (stage2_hchk s) = f_flag s"
  "TSC1 (stage2_hchk s) = TSC1 s" "TSC2 (stage2_hchk s) = TSC2 s"
  "OREST (stage2_hchk s) = OREST s" "BinMin (stage2_hchk s) = BinMin s"
  "N (stage2_hchk s) = N s" "bin (stage2_hchk s) = bin s" "ST (stage2_hchk s) = ST s"
  "TL (stage2_hchk s) = TL s" "TH (stage2_hchk s) = TH s" "initf (stage2_hchk s) = initf s"
  "dFval3 (stage2_hchk s) = dFval3 s" "dFval4 (stage2_hchk s) = dFval4 s"
  "Count (stage2_hchk s) = Count s" "totCi (stage2_hchk s) = totCi s"
  "curbin (stage2_hchk s) = curbin s" "T (stage2_hchk s) = T s"
  "Gamma (stage2_hchk s) = Gamma s" "T1 (stage2_hchk s) = T1 s" "T2 (stage2_hchk s) = T2 s"
  "CTmin (stage2_hchk s) = CTmin s" "CTmax (stage2_hchk s) = CTmax s"
  "HCKtol (stage2_hchk s) = HCKtol s" "pfinFval (stage2_hchk s) = pfinFval s"
  "finFval (stage2_hchk s) = finFval s" "Y2 (stage2_hchk s) = Y2 s"
  "Htot (stage2_hchk s) = Htot s" "PROH (stage2_hchk s) = PROH s"
  by (simp_all add: stage2_hchk_def Let_def)

lemma stage2_sqrt_frame [simp]:
  "RSTFRQ (stage2_sqrt istep s) = RSTFRQ s" "f_flag (stage2_sqrt istep s) = f_flag s"
  "TSC1 (stage2_sqrt istep s) = TSC1 s" "TSC2 (stage2_sqrt istep s) = TSC2 s"
  "OREST (stage2_sqrt istep s) = OREST s" "BinMin (stage2_sqrt istep s) = BinMin s"
  "N (stage2_sqrt istep s) = N s" "bin (stage2_sqrt istep s) = bin s"
  "ST (stage2_sqrt istep s) = ST s" "TL (stage2_sqrt istep s) = TL s"
  "TH (stage2_sqrt istep s) = TH s" "initf (stage2_sqrt istep s) = initf s"
  "dFval3 (stage2_sqrt istep s) = dFval3 s" "dFval4 (stage2_sqrt istep s) = dFval4 s"
  "STG (stage2_sqrt istep s) = STG s" "SWf (stage2_sqrt istep s) = SWf s"
  "SWfold (stage2_sqrt istep s) = SWfold s" "SWchk (stage2_sqrt istep s) = SWchk s"
  "Count (stage2_sqrt istep s) = Count s" "CountPH (stage2_sqrt istep s) = CountPH s"
  "totCi (stage2_sqrt istep s) = totCi s" "curbin (stage2_sqrt istep s) = curbin s"
  "T (stage2_sqrt istep s) = T s" "Gamma (stage2_sqrt istep s) = Gamma s"
  "T1 (stage2_sqrt istep s) = T1 s" "T2 (stage2_sqrt istep s) = T2 s"
  "CTmin (stage2_sqrt istep s) = CTmin s" "CTmax (stage2_sqrt istep s) = CTmax s"
  "HCKtol (stage2_sqrt istep s) = HCKtol s" "pfinFval (stage2_sqrt istep s) = pfinFval s"
  "finFval (stage2_sqrt istep s) = finFval s" "Y2 (stage2_sqrt istep s) = Y2 s"
  "Htot (stage2_sqrt istep s) = Htot s" "PROH (stage2_sqrt istep s) = PROH s"
  by (simp_all add: stage2_sqrt_def Let_def)

lemma stage2_constant_f_frame [simp]:
  "RSTFRQ (stage2_constant_f istep s) = RSTFRQ s"
  "f_flag (stage2_constant_f istep s) = f_flag s"
  "TSC1 (stage2_constant_f istep s) = TSC1 s" "TSC2 (stage2_constant_f istep s) = TSC2 s"
  "OREST (stage2_constant_f istep s) = OREST s"
  "BinMin (stage2_constant_f istep s) = BinMin s" "N (stage2_constant_f istep s) = N s"
  "bin (stage2_constant_f istep s) = bin s" "ST (stage2_constant_f istep s) = ST s"
  "TL (stage2_constant_f istep s) = TL s" "TH (stage2_constant_f istep s) = TH s"
  "initf (stage2_constant_f istep s) = initf s"
  "dFval3 (stage2_constant_f istep s) = dFval3 s"
  "dFval4 (stage2_constant_f istep s) = dFval4 s" "STG (stage2_constant_f istep s) = STG s"
  "SWf (stage2_constant_f istep s) = SWf s" "SWfold (stage2_constant_f istep s) = SWfold s"
  "SWchk (stage2_constant_f istep s) = SWchk s"
  "Count (stage2_constant_f istep s) = Count s"
  "CountPH (stage2_constant_f istep s) = CountPH s"
  "totCi (stage2_constant_f istep s) = totCi s"
  "curbin (stage2_constant_f istep s) = curbin s" "T (stage2_constant_f istep s) = T s"
  "Gamma (stage2_constant_f istep s) = Gamma s" "T1 (stage2_constant_f istep s) = T1 s"
  "T2 (stage2_constant_f istep s) = T2 s" "CTmin (stage2_constant_f istep s) = CTmin s"
  "CTmax (stage2_constant_f istep s) = CTmax s"
  "HCKtol (stage2_constant_f istep s) = HCKtol s"
  "pfinFval (stage2_constant_f istep s) = pfinFval s"
  "finFval (stage2_constant_f istep s) = finFval s" "Y2 (stage2_constant_f istep s) = Y2 s"
  "Htot (stage2_constant_f istep s) = Htot s" "PROH (stage2_constant_f istep s) = PROH s"
  by (simp_all add: stage2_constant_f_def Let_def)

lemma stage2_constant_df_frame [simp]:
  "RSTFRQ (stage2_constant_df istep s) = RSTFRQ s"
  "f_flag (stage2_constant_df istep s) = f_flag s"
  "TSC1 (stage2_constant_df istep s) = TSC1 s" "TSC2 (stage2_constant_df istep s) = TSC2 s"
  "OREST (stage2_constant_df istep s) = OREST s"
  "BinMin (stage2_constant_df istep s) = BinMin s" "N (stage2_constant_df istep s) = N s"
  "bin (stage2_constant_df istep s) = bin s" "ST (stage2_constant_df istep s) = ST s"
  "TL (stage2_constant_df istep s) = TL s" "TH (stage2_constant_df istep s) = TH s"
  "initf (stage2_constant_df istep s) = initf s"
  "dFval3 (stage2_constant_df istep s) = dFval3 s"
  "dFval4 (stage2_constant_df istep s) = dFval4 s"
  "STG (stage2_constant_df istep s) = STG s" "SWf (stage2_constant_df istep s) = SWf s"
  "SWfold (stage2_constant_df istep s) = SWfold s"
  "SWchk (stage2_constant_df istep s) = SWchk s"
  "Count (stage2_constant_df istep s) = Count s"
  "CountH (stage2_constant_df istep s) = CountH s"
  "CountPH (stage2_constant_df istep s) = CountPH s"
  "totCi (stage2_constant_df istep s) = totCi s"
  "curbin (stage2_constant_df istep s) = curbin s" "T (stage2_constant_df istep s) = T s"
  "Gamma (stage2_constant_df istep s) = Gamma s" "T1 (stage2_constant_df istep s) = T1 s"
  "T2 (stage2_constant_df istep s) = T2 s" "CTmin (stage2_constant_df istep s) = CTmin s"
  "CTmax (stage2_constant_df istep s) = CTmax s"
  "HCKtol (stage2_constant_df istep s) = HCKtol s"
  "pfinFval (stage2_constant_df istep s) = pfinFval s"
  "finFval (stage2_constant_df istep s) = finFval s"
  "Y2 (stage2_constant_df istep s) = Y2 s" "Hist (stage2_constant_df istep s) = Hist s"
  "Htot (stage2_constant_df istep s) = Htot s" "PROH (stage2_constant_df istep s) = PROH s"
  by (simp_all add: stage2_constant_df_def Let_def)

subsection \<open>The flatness check\<close>

lemma HCHK_sum_fold:
  "fold (HCHK_sum s) xs (a, c) =
     (a + sum_list (map (\<lambda>i. real_of_int (Hist s ! i)) (filter (in_cut s) xs)),
      c + int (length (filter (in_cut s) xs)))"
  by (induction xs arbitrary: a c) (simp_all add: HCHK_sum_def)

lemma HCHK_chk_fold:
  "fold (HCHK_chk s m) xs k =
     k + int (length (filter (\<lambda>i. HCHK_dev s m i > HCKtol s) (filter (in_cut s) xs)))"
  by (induction xs arbitrary: k) (simp_all add: HCHK_chk_def)

lemma in_cut_flat_bins: "filter (in_cut s) [0..<nat (N s)] = flat_bins s"
proof -
  have "in_cut s = (\<lambda>i. CTmin s < Y2 s ! i \<and> Y2 s ! i < CTmax s)"
    by (auto simp: fun_eq_iff in_cut_def)
  then show ?thesis by (simp add: flat_bins_def)
qed

lemma HCHK_loop_frame:
  "HCHK_sum (s\<lparr>SWfold := x\<rparr>) = HCHK_sum s" "HCHK_chk (s\<lparr>SWfold := x\<rparr>) = HCHK_chk s"
  by (auto simp: fun_eq_iff HCHK_sum_def HCHK_chk_def in_cut_def HCHK_dev_def)

lemma flat_bins_frame: "flat_bins (s\<lparr>SWfold := x\<rparr>) = flat_bins s"
  by (simp add: flat_bins_def)

lemma HCHK_unfold:
  "HCHK s =
     (if flat_bins s = [] then s\<lparr>SWfold := SWf s\<rparr>
      else if filter (\<lambda>i. HCHK_dev s (flat_mean s) i > HCKtol s) (flat_bins s) = []
      then s\<lparr>SWfold := SWf s, SWf := SWf s + 1\<rparr>
      else s\<lparr>SWfold := SWf s\<rparr>)"
proof -
  have l: "int (length xs) = 0 \<longleftrightarrow> xs = []" "int (length xs) < 1 \<longleftrightarrow> xs = []" for xs :: "nat list"
    by (cases xs; simp)+
  show ?thesis
    by (simp add: HCHK_def Let_def HCHK_loop_frame HCHK_sum_fold HCHK_chk_fold in_cut_flat_bins
        flat_mean_def l flat_bins_frame)
qed

lemma flat_bins_less: "i \<in> set (flat_bins s) \<Longrightarrow> i < nat (N s)"
  by (simp add: flat_bins_def)

lemma flat_mean_nonneg:
  assumes "\<forall>i<nat (N s). 0 \<le> Hist s ! i"
  shows "0 \<le> flat_mean s"
proof -
  have "0 \<le> sum_list (map (\<lambda>i. real_of_int (Hist s ! i)) (flat_bins s))"
    by (rule sum_list_nonneg) (use assms flat_bins_less in auto)
  then show ?thesis by (simp add: flat_mean_def)
qed

text \<open>
  C7.  \<^verbatim>\<open>init\<close> sets the tolerance \<^verbatim>\<open>HCKtol\<close> to 0.2.  For a histogram of counts (no negative
  entry) \<^verbatim>\<open>HCHK\<close> does what the specification says: the mean is taken over exactly the
  bins with \<open>CTmin < Y[i] < CTmax\<close>; if there is none, only \<^verbatim>\<open>SWfold\<close> is set to \<^verbatim>\<open>SWf\<close>, which
  is "no change"; otherwise \<^verbatim>\<open>SWf\<close> is incremented exactly when no qualifying bin has a
  real-valued relative deviation \<open>|Hist[i] - mean| / mean\<close> above the tolerance, and
  afterwards \<^verbatim>\<open>SWf\<close> differs from \<^verbatim>\<open>SWfold\<close> exactly in that case.
\<close>

theorem HCHK_flatness:
  "HCKtol (init_fresh c) = 2 / 10 \<and>
   ((\<forall>i<nat (N s). 0 \<le> Hist s ! i) \<longrightarrow>
      HCHK s = hchk_spec s \<and>
      (SWf (HCHK s) \<noteq> SWfold (HCHK s) \<longleftrightarrow> flat_bins s \<noteq> [] \<and> flat_violations s = 0))"
proof (intro conjI impI)
  show "HCKtol (init_fresh c) = 2 / 10" by (simp add: init_fresh_def Let_def)
next
  assume h: "\<forall>i<nat (N s). 0 \<le> Hist s ! i"
  have "HCHK_dev s (flat_mean s) i = \<bar>real_of_int (Hist s ! i) - flat_mean s\<bar> / flat_mean s" for i
    using flat_mean_nonneg [OF h] by (simp add: HCHK_dev_def)
  then have e: "HCHK s = hchk_spec s"
    by (simp add: HCHK_unfold hchk_spec_def flat_violations_def)
  show "HCHK s = hchk_spec s" by (rule e)
  show "SWf (HCHK s) \<noteq> SWfold (HCHK s) \<longleftrightarrow> flat_bins s \<noteq> [] \<and> flat_violations s = 0"
    by (simp add: e hchk_spec_def)
qed

lemma flat_example_bins: "flat_bins flat_example = [1, 2, 3]"
  by (simp add: flat_bins_def flat_example_def ping_def upt_rec)

lemma flat_example_mean: "flat_mean flat_example = 10"
  by (simp add: flat_mean_def flat_example_bins) (simp add: flat_example_def)

theorem HCHK_flatness_witness:
  "SWf (HCHK flat_example) = 2 \<and> SWfold (HCHK flat_example) = 1"
proof -
  have h: "\<forall>i<nat (N flat_example). 0 \<le> Hist flat_example ! i"
  proof (intro allI impI)
    fix i assume "i < nat (N flat_example)"
    then have "i = 0 \<or> i = 1 \<or> i = 2 \<or> i = 3 \<or> i = 4"
      by (simp add: flat_example_def ping_def) arith
    then show "0 \<le> Hist flat_example ! i"
      by (auto simp: flat_example_def)
  qed
  have v: "flat_violations flat_example = 0"
    by (simp add: flat_violations_def flat_example_bins flat_example_mean)
       (simp add: flat_example_def ping_def)
  from HCHK_flatness [of ping flat_example] h have "HCHK flat_example = hchk_spec flat_example"
    by blast
  then show ?thesis
    by (simp add: hchk_spec_def flat_example_bins v) (simp add: flat_example_def ping_def)
qed

subsection \<open>The structure of a step\<close>

lemma ResetPH_Hist: "length (Hist s) = nat (N s) \<Longrightarrow> Hist (ResetPH s) = replicate (nat (N s)) 0"
  using fold_fill_all [of 0 "Hist s"] by (simp add: ResetPH_def)

lemma and_then_Inr: "and_then r k = Inr y \<longleftrightarrow> (\<exists>x. r = Inr x \<and> k x = Inr y)"
  by (cases r) (simp_all add: and_then_def)

lemma Yval_Inr:
  assumes "Yval potE s = Inr (i, s')"
  shows "i = c_round (potE / bin s) - BinMin s + 1" and "1 \<le> i" and "i + 1 < N s"
    and "s' = Yval_update i (s\<lparr>curbin := i\<rparr>)"
  using assms by (auto simp: Yval_def Let_def split: if_splits)

lemma MAIN_record_Inr:
  assumes "MAIN_record istep potE s = Inr s'"
  obtains i where "i = c_round (potE / bin s) - BinMin s + 1" and "1 \<le> i" and "i + 1 < N s"
    and "s' = MAIN_hist potE i (Yval_update i ((MAIN_count istep s)\<lparr>curbin := i\<rparr>))"
proof -
  from assms obtain r where r: "Yval potE (MAIN_count istep s) = Inr r"
    "s' = MAIN_hist potE (fst r) (snd r)"
    by (auto simp: MAIN_record_def and_then_Inr)
  obtain i s3 where p: "r = (i, s3)" by (cases r)
  note y = Yval_Inr [OF r(1) [unfolded p]]
  show ?thesis
    by (rule that [of i]) (use y r(2) p in simp_all)
qed

lemma MAIN_Inr:
  assumes "MAIN istep potE s = Inr s'"
  obtains s1 s2 s3 where "MAIN_record istep potE s = Inr s1" and "RSTFRQ s1 \<noteq> 0"
    and "(if STG s1 \<ge> 3 then MAIN_stage3 istep s1 else Inr s1) = Inr s2"
    and "(if STG s2 = 2 then MAIN_stage2 istep s2 else Inr s2) = Inr s3"
    and "(if STG s3 = 1 then MAIN_stage1 istep s3 else Inr s3) = Inr s'"
proof -
  from assms obtain s1 where 1: "MAIN_record istep potE s = Inr s1" and
    r1: "(if RSTFRQ s1 = 0 then Inl Undefined_behaviour
       else
         and_then (if STG s1 \<ge> 3 then MAIN_stage3 istep s1 else Inr s1) (\<lambda>s.
         and_then (if STG s = 2 then MAIN_stage2 istep s else Inr s) (\<lambda>s.
         if STG s = 1 then MAIN_stage1 istep s else Inr s))) = Inr s'"
    unfolding MAIN_def and_then_Inr by blast
  from r1 have 2: "RSTFRQ s1 \<noteq> 0" by (auto split: if_splits)
  with r1 obtain s2 s3 where
    3: "(if STG s1 \<ge> 3 then MAIN_stage3 istep s1 else Inr s1) = Inr s2"
    and 4: "(if STG s2 = 2 then MAIN_stage2 istep s2 else Inr s2) = Inr s3"
    and 5: "(if STG s3 = 1 then MAIN_stage1 istep s3 else Inr s3) = Inr s'"
    by (auto simp: and_then_Inr)
  from 1 2 3 4 5 that show ?thesis by blast
qed

lemma MAIN_record_allocated:
  assumes "MAIN_record istep potE s = Inr s'" and "allocated s"
  shows "allocated s'"
proof -
  from assms(1) obtain i where
    s': "s' = MAIN_hist potE i (Yval_update i ((MAIN_count istep s)\<lparr>curbin := i\<rparr>))"
    by (rule MAIN_record_Inr)
  show ?thesis using assms(2) unfolding s' allocated_def
    by (simp add: MAIN_hist_def AddedEHis_def Let_def Yval_update_def)
qed

text \<open>
  What lines 804 to 837 do to the counters in stage 3 and 4, for every engine and every
  sampled energy that \<^verbatim>\<open>Yval\<close> accepts.
\<close>

lemma MAIN_record_counts:
  assumes "MAIN_record istep potE s = Inr s'" and "allocated s" and "3 \<le> STG s"
  shows "curbin s' = c_round (potE / bin s) - BinMin s + 1 \<and>
         Hist s' ! nat (curbin s') = Hist s ! nat (curbin s') + 1 \<and>
         Htot s' ! nat (curbin s') = Htot s ! nat (curbin s') + 1 \<and>
         PROH s' ! nat (curbin s') = PROH s ! nat (curbin s') + 1 \<and>
         CountH s' = CountH s + 1 \<and> CountPH s' = CountPH s + 2"
proof -
  from assms(1) obtain i where i: "i = c_round (potE / bin s) - BinMin s + 1" "1 \<le> i" "i + 1 < N s"
    and s': "s' = MAIN_hist potE i (Yval_update i ((MAIN_count istep s)\<lparr>curbin := i\<rparr>))"
    by (rule MAIN_record_Inr)
  have b: "nat i < length (Hist s)" "nat i < length (Htot s)" "nat i < length (PROH s)"
    using assms(2) i(2,3) by (auto simp: allocated_def)
  have c: "curbin s' = i" by (simp add: s')
  show ?thesis unfolding c
    using b assms(3) by (simp add: s' i(1) MAIN_hist_def AddedEHis_def MAIN_count_def Let_def)
qed

lemma ResetPH_length [simp]: "length (Hist (ResetPH s)) = length (Hist s)"
  by (simp add: ResetPH_def fold_fill_length)

lemma MAIN_stage2_Inr:
  assumes "MAIN_stage2 istep s = Inr s'"
  obtains (skip) "c_rem istep (TSC2 s) \<noteq> 0" and "s' = s"
  | (run) s2 where "c_rem istep (TSC2 s) = 0"
      and "s2 = (if f_flag s = 0 then stage2_none s
                 else if f_flag s = 1 then stage2_hchk s
                 else if f_flag s = 2 then stage2_sqrt istep s
                 else if f_flag s = 3 then stage2_constant_f istep s
                 else if f_flag s = 4 then stage2_constant_df istep s else s)"
      and "1 < f s2"
      and "s' = (if f s2 \<le> pfinFval s \<and> 1 < f_flag s then s2\<lparr>STG := 3, CountPH := 0\<rparr> else s2)"
proof -
  from assms have t: "TSC2 s \<noteq> 0" by (auto simp: MAIN_stage2_def split: if_splits)
  show ?thesis
  proof (cases "c_rem istep (TSC2 s) = 0")
    case False
    with assms t have "s' = s" by (simp add: MAIN_stage2_def)
    with False show ?thesis by (rule skip)
  next
    case True
    define s2 where "s2 = (if f_flag s = 0 then stage2_none s
                 else if f_flag s = 1 then stage2_hchk s
                 else if f_flag s = 2 then stage2_sqrt istep s
                 else if f_flag s = 3 then stage2_constant_f istep s
                 else if f_flag s = 4 then stage2_constant_df istep s else s)"
    have c: "(let s = (if f_flag s = 0 then stage2_none s else s);
             s = (if f_flag s = 1 then stage2_hchk s else s);
             s = (if f_flag s = 2 then stage2_sqrt istep s else s);
             s = (if f_flag s = 3 then stage2_constant_f istep s else s);
             s = (if f_flag s = 4 then stage2_constant_df istep s else s)
         in s) = s2"
      unfolding s2_def
      by (cases "f_flag s = 0"; cases "f_flag s = 1"; cases "f_flag s = 2";
          cases "f_flag s = 3"; cases "f_flag s = 4"; simp add: Let_def)
    have k: "f_flag s2 = f_flag s" "pfinFval s2 = pfinFval s"
      by (simp_all add: s2_def)
    have m: "MAIN_stage2 istep s =
       (if f s2 \<le> 1 then Inl F_value_less_than_unity
        else if f s2 \<le> pfinFval s2 \<and> f_flag s2 > 1
        then Inr (s2\<lparr>STG := 3, CountPH := 0\<rparr>) else Inr s2)"
      using True t unfolding MAIN_stage2_def c [symmetric] by (simp add: Let_def)
    from assms m have "1 < f s2" by (simp split: if_splits)
    moreover from assms m k
    have "s' = (if f s2 \<le> pfinFval s \<and> 1 < f_flag s then s2\<lparr>STG := 3, CountPH := 0\<rparr> else s2)"
      by (auto split: if_splits)
    ultimately show ?thesis using True s2_def by (intro run [of s2]) simp_all
  qed
qed

lemma MAIN_stage3_Inr:
  assumes "MAIN_stage3 istep s = Inr s'"
  obtains (skip) "c_rem istep (TSC2 s) \<noteq> 0" and "s' = s"
  | (run) s2 where "c_rem istep (TSC2 s) = 0"
      and "s2 = (if f_flag s = 1 then stage3_hchk s
                 else if 1 < f_flag s then stage3_reduce s else s)"
      and "s' = (if f s2 \<le> finFval s then s2\<lparr>STG := 4\<rparr> else s2)"
proof -
  from assms have t: "TSC2 s \<noteq> 0" by (auto simp: MAIN_stage3_def split: if_splits)
  show ?thesis
  proof (cases "c_rem istep (TSC2 s) = 0")
    case False
    with assms t have "s' = s" by (simp add: MAIN_stage3_def)
    with False show ?thesis by (rule skip)
  next
    case True
    define s2 where "s2 = (if f_flag s = 1 then stage3_hchk s
                 else if 1 < f_flag s then stage3_reduce s else s)"
    have c: "(let s = (if f_flag s = 1 then stage3_hchk s else s);
                  s = (if f_flag s > 1 then stage3_reduce s else s)
              in s) = s2"
      unfolding s2_def by (cases "f_flag s = 1"; cases "1 < f_flag s"; simp add: Let_def)
    have k: "finFval s2 = finFval s" by (simp add: s2_def)
    have m: "MAIN_stage3 istep s = Inr (if f s2 \<le> finFval s2 then s2\<lparr>STG := 4\<rparr> else s2)"
      using True t unfolding MAIN_stage3_def c [symmetric] by (simp add: Let_def)
    with assms k have "s' = (if f s2 \<le> finFval s then s2\<lparr>STG := 4\<rparr> else s2)" by simp
    with True s2_def show ?thesis by (intro run [of s2]) simp_all
  qed
qed


text \<open>
  C4.  The claim: a step in stage 3 or 4 adds exactly 1 to \<^verbatim>\<open>Hist\<close>, \<^verbatim>\<open>Htot\<close> and \<^verbatim>\<open>PROH\<close> at the
  sampled bin, to \<^verbatim>\<open>CountH\<close> and to \<^verbatim>\<open>CountPH\<close>.  \<^verbatim>\<open>MAIN\<close> increments \<^verbatim>\<open>CountPH\<close> on line 807 and
  again on line 836 (\<open>MAIN_record_counts\<close> above).  In the engine \<open>converge\<close> (stage 3) the
  step 1 with energy 1 samples bin 2 and adds 1 to the three histograms and to \<^verbatim>\<open>CountH\<close>,
  and 2 to \<^verbatim>\<open>CountPH\<close>.
\<close>

theorem MAIN_counts_production_step_twice:
  "STG converge = 3 \<and> \<not> isl (MAIN 1 1 converge) \<and>
   curbin (projr (MAIN 1 1 converge)) = 2 \<and>
   Hist (projr (MAIN 1 1 converge)) ! 2 = Hist converge ! 2 + 1 \<and>
   Htot (projr (MAIN 1 1 converge)) ! 2 = Htot converge ! 2 + 1 \<and>
   PROH (projr (MAIN 1 1 converge)) ! 2 = PROH converge ! 2 + 1 \<and>
   CountH (projr (MAIN 1 1 converge)) = CountH converge + 1 \<and>
   CountPH (projr (MAIN 1 1 converge)) = CountPH converge + 2"
  by (simp add: MAIN_def MAIN_record_def and_then_def Yval_def MAIN_count_def MAIN_hist_def
      MAIN_stage3_def c_rem_def c_round_def converge_def ping_def Let_def AddedEHis_def)

subsection \<open>Promotion from stage 2\<close>

lemma MAIN_record_frame:
  assumes "MAIN_record istep potE s = Inr s'"
  shows "STG s' = STG s" "f_flag s' = f_flag s" "TSC1 s' = TSC1 s" "TSC2 s' = TSC2 s"
    "N s' = N s" "f s' = f s" "df s' = df s" "bin s' = bin s" "T1 s' = T1 s" "T2 s' = T2 s"
    "pfinFval s' = pfinFval s" "finFval s' = finFval s" "SWchk s' = SWchk s"
    "CountH s' = CountH s + 1"
proof -
  from assms obtain i where
    s': "s' = MAIN_hist potE i (Yval_update i ((MAIN_count istep s)\<lparr>curbin := i\<rparr>))"
    by (rule MAIN_record_Inr)
  show "STG s' = STG s" "f_flag s' = f_flag s" "TSC1 s' = TSC1 s" "TSC2 s' = TSC2 s"
    "N s' = N s" "f s' = f s" "df s' = df s" "bin s' = bin s" "T1 s' = T1 s" "T2 s' = T2 s"
    "pfinFval s' = pfinFval s" "finFval s' = finFval s" "SWchk s' = SWchk s"
    by (simp_all add: s')
  show "CountH s' = CountH s + 1"
    by (simp add: s' MAIN_hist_def Let_def AddedEHis_def)
qed

lemma MAIN_record_Hist:
  assumes "MAIN_record istep potE s = Inr s'"
  shows "Hist s' = (Hist s)[nat (curbin s') := Hist s ! nat (curbin s') + 1]"
proof -
  from assms obtain i where
    s': "s' = MAIN_hist potE i (Yval_update i ((MAIN_count istep s)\<lparr>curbin := i\<rparr>))"
    by (rule MAIN_record_Inr)
  have c: "curbin s' = i" by (simp add: s')
  show ?thesis unfolding c
    by (simp add: s' MAIN_hist_def Let_def AddedEHis_def)
qed

lemma stage2_hchk_STG: "STG (stage2_hchk s) = STG s \<or> STG (stage2_hchk s) = 3"
  by (simp add: stage2_hchk_def Let_def)

lemma stage2_hchk_promoted:
  assumes "f (stage2_hchk s) \<le> pfinFval s" and "length (Hist s) = nat (N s)"
  shows "STG (stage2_hchk s) = 3" and "CountPH (stage2_hchk s) = 0"
    and "SWchk (stage2_hchk s) = 1" and "Hist (stage2_hchk s) = replicate (nat (N s)) 0"
    and "CountH (stage2_hchk s) = 0"
proof -
  define s2 where "s2 =
     (let s1 = HCHK s
      in if SWfold s1 \<noteq> SWf s1
         then (ResetPH (s1\<lparr>f := sqrt (f s1), df := ln (sqrt (f s1)) * 0.5 / bin s1,
                            SWchk := 1\<rparr>))\<lparr>CountH := 0\<rparr>
         else s1\<lparr>SWchk := SWchk s1 + 1\<rparr>)"
  have e: "stage2_hchk s =
     (if f s2 \<le> pfinFval s2
      then (ResetPH (s2\<lparr>STG := 3, CountPH := 0, SWchk := 1\<rparr>))\<lparr>CountH := 0\<rparr> else s2)"
    by (simp add: stage2_hchk_def Let_def s2_def)
  have k: "pfinFval s2 = pfinFval s" "N s2 = N s" "length (Hist s2) = length (Hist s)"
    by (simp_all add: s2_def Let_def)
  have "f (stage2_hchk s) = f s2" by (simp add: e)
  with assms(1) k have p: "f s2 \<le> pfinFval s2" by simp
  then have e3: "stage2_hchk s = (ResetPH (s2\<lparr>STG := 3, CountPH := 0, SWchk := 1\<rparr>))\<lparr>CountH := 0\<rparr>"
    by (simp add: e)
  show "STG (stage2_hchk s) = 3" "CountPH (stage2_hchk s) = 0" "SWchk (stage2_hchk s) = 1"
    "CountH (stage2_hchk s) = 0"
    by (simp_all add: e3)
  show "Hist (stage2_hchk s) = replicate (nat (N s)) 0"
    using k assms(2) by (simp add: e3 ResetPH_Hist)
qed

lemma stage2_window:
  assumes "length (Hist s) = nat (N s)"
  shows "Hist (stage2_sqrt istep s) = replicate (nat (N s)) 0" "CountH (stage2_sqrt istep s) = 0"
    "Hist (stage2_constant_f istep s) = replicate (nat (N s)) 0"
    "CountH (stage2_constant_f istep s) = 0"
  using assms by (simp_all add: stage2_sqrt_def stage2_constant_f_def Let_def ResetPH_Hist)

text \<open>
  C6, amended.  In stage 2, on a step whose number is a multiple of \<^verbatim>\<open>TSC2\<close> and that leaves
  \<open>f \<le> pfinFval\<close>, under each of the schemes \<^verbatim>\<open>hchk\<close>, \<^verbatim>\<open>sqrt\<close>, \<^verbatim>\<open>constant_f\<close> and
  \<^verbatim>\<open>constant_df\<close> the step promotes \<^verbatim>\<open>STG\<close> to 3 and resets \<^verbatim>\<open>CountPH\<close> to 0.  Under \<^verbatim>\<open>hchk\<close> it
  also sets \<^verbatim>\<open>SWchk\<close> to 1; under the other schemes \<^verbatim>\<open>SWchk\<close> keeps its value.  Under \<^verbatim>\<open>hchk\<close>,
  \<^verbatim>\<open>sqrt\<close> and \<^verbatim>\<open>constant_f\<close> the window is reset (\<^verbatim>\<open>Hist\<close> zeroed, \<^verbatim>\<open>CountH\<close> 0); under
  \<^verbatim>\<open>constant_df\<close> it is not: \<^verbatim>\<open>Hist\<close> is the histogram before the step with the sampled bin
  incremented, and \<^verbatim>\<open>CountH\<close> counts the step.
\<close>

theorem stage2_promotion:
  assumes "allocated s" and "STG s = 2" and "c_rem istep (TSC2 s) = 0"
    and "MAIN istep potE s = Inr s'" and "f s' \<le> pfinFval s"
    and "1 \<le> f_flag s" and "f_flag s \<le> 4"
  shows "STG s' = 3 \<and> CountPH s' = 0 \<and>
         (f_flag s = 1 \<longrightarrow> SWchk s' = 1) \<and>
         (f_flag s \<noteq> 1 \<longrightarrow> SWchk s' = SWchk s) \<and>
         (f_flag s \<noteq> 4 \<longrightarrow> Hist s' = replicate (nat (N s)) 0 \<and> CountH s' = 0) \<and>
         (f_flag s = 4 \<longrightarrow>
            Hist s' = (Hist s)[nat (curbin s') := Hist s ! nat (curbin s') + 1] \<and>
            CountH s' = CountH s + 1)"
proof -
  from assms(4) obtain s1 s2 s3 where m1: "MAIN_record istep potE s = Inr s1"
    and m3: "(if STG s1 \<ge> 3 then MAIN_stage3 istep s1 else Inr s1) = Inr s2"
    and m4: "(if STG s2 = 2 then MAIN_stage2 istep s2 else Inr s2) = Inr s3"
    and m5: "(if STG s3 = 1 then MAIN_stage1 istep s3 else Inr s3) = Inr s'"
    by (rule MAIN_Inr)
  note k = MAIN_record_frame [OF m1]
  have "allocated s1" by (rule MAIN_record_allocated [OF m1 assms(1)])
  then have l: "length (Hist s1) = nat (N s1)" by (simp add: allocated_def)
  from m3 k(1) assms(2) have "s2 = s1" by simp
  with m4 k(1) assms(2) have st2: "MAIN_stage2 istep s1 = Inr s3" by simp
  from assms(6,7) have c: "f_flag s = 1 \<or> f_flag s = 2 \<or> f_flag s = 3 \<or> f_flag s = 4"
    by arith
  from st2 show ?thesis
  proof (cases rule: MAIN_stage2_Inr)
    case skip
    with assms(3) k(4) show ?thesis by simp
  next
    case (run sa)
    have g: "STG sa = 2 \<or> STG sa = 3"
      using stage2_hchk_STG [of s1] c by (auto simp: run(2) k(1,2) assms(2))
    then have "STG s3 \<noteq> 1" by (auto simp: run(4))
    with m5 have s': "s' = s3" by simp
    have fs: "f s3 = f sa" by (simp add: run(4))
    with assms(5) s' have p: "f sa \<le> pfinFval s1" by (simp add: k)
    from c show ?thesis
    proof (elim disjE)
      assume a: "f_flag s = 1"
      then have sa: "sa = stage2_hchk s1" by (simp add: run(2) k(2))
      from a have "s3 = sa" by (simp add: run(4) k(2))
      with stage2_hchk_promoted [OF p [unfolded sa] l] a show ?thesis
        by (simp add: s' sa k(5))
    next
      assume a: "f_flag s = 2"
      then have sa: "sa = stage2_sqrt istep s1" by (simp add: run(2) k(2))
      from a p have "s3 = sa\<lparr>STG := 3, CountPH := 0\<rparr>" by (simp add: run(4) k(2))
      with stage2_window(1,2) [OF l, of istep] a show ?thesis
        by (simp add: s' sa k(5,13))
    next
      assume a: "f_flag s = 3"
      then have sa: "sa = stage2_constant_f istep s1" by (simp add: run(2) k(2))
      from a p have "s3 = sa\<lparr>STG := 3, CountPH := 0\<rparr>" by (simp add: run(4) k(2))
      with stage2_window(3,4) [OF l, of istep] a show ?thesis
        by (simp add: s' sa k(5,13))
    next
      assume a: "f_flag s = 4"
      then have sa: "sa = stage2_constant_df istep s1" by (simp add: run(2) k(2))
      from a p have s3: "s3 = sa\<lparr>STG := 3, CountPH := 0\<rparr>" by (simp add: run(4) k(2))
      have "Hist s' = Hist s1" "curbin s' = curbin s1" by (simp_all add: s' s3 sa)
      with MAIN_record_Hist [OF m1]
      have "Hist s' = (Hist s)[nat (curbin s') := Hist s ! nat (curbin s') + 1]" by simp
      with a s3 show ?thesis
        by (simp add: s' sa k(13,14))
    qed
  qed
qed

lemma learn_df_sel:
  "N learn_df = 5" "STG learn_df = 2" "f_flag learn_df = 4" "TSC2 learn_df = 10"
  "pfinFval learn_df = exp (1 / 100)" "SWchk learn_df = 1" "CountH learn_df = 7"
  "length (Y2 learn_df) = 5" "length (Hist learn_df) = 5" "length (Htot learn_df) = 5"
  "length (PROH learn_df) = 5"
  by (simp_all add: learn_df_def ping_def)

text \<open>
  C6, as stated: whenever an update in stage 2 leaves \<open>f \<le> pfinFval\<close>, the step promotes
  to stage 3 and resets the window, for every scheme.  The engine \<open>learn_df\<close> runs the
  scheme \<^verbatim>\<open>constant_df\<close>; step 20 lowers \<^verbatim>\<open>f\<close> to at most \<^verbatim>\<open>pfinFval\<close> and promotes to stage 3,
  and \<^verbatim>\<open>Hist\<close> and \<^verbatim>\<open>CountH\<close> keep their counts.
\<close>

theorem stage2_promotion_counterexample:
  "STG learn_df = 2 \<and> \<not> isl (MAIN 20 2 learn_df) \<and>
   f (projr (MAIN 20 2 learn_df)) \<le> pfinFval learn_df \<and>
   f (projr (MAIN 20 2 learn_df)) \<noteq> f learn_df \<and>
   STG (projr (MAIN 20 2 learn_df)) = 3 \<and>
   Hist (projr (MAIN 20 2 learn_df)) = [0, 4, 2, 2, 0] \<and>
   CountH (projr (MAIN 20 2 learn_df)) = 8"
  by (simp add: MAIN_def MAIN_record_def and_then_def Yval_def MAIN_count_def MAIN_hist_def
      MAIN_stage2_def stage2_constant_df_def c_rem_def c_round_def learn_df_def ping_def Let_def
      AddedEHis_def GammaE_def Yval_update_def)

theorem stage2_promotion_witness:
  "STG (projr (MAIN 20 2 learn_df)) = 3 \<and> CountPH (projr (MAIN 20 2 learn_df)) = 0 \<and>
   SWchk (projr (MAIN 20 2 learn_df)) = 1 \<and> CountH (projr (MAIN 20 2 learn_df)) = 8 \<and>
   Hist (projr (MAIN 20 2 learn_df)) = [0, 4, 2, 2, 0]"
proof -
  have c: "\<not> isl (MAIN 20 2 learn_df)" "f (projr (MAIN 20 2 learn_df)) \<le> pfinFval learn_df"
    "curbin (projr (MAIN 20 2 learn_df)) = 3"
    by (simp_all add: MAIN_def MAIN_record_def and_then_def Yval_def MAIN_count_def MAIN_hist_def
      MAIN_stage2_def stage2_constant_df_def c_rem_def c_round_def learn_df_def ping_def Let_def
      AddedEHis_def GammaE_def Yval_update_def)
  have h: "allocated learn_df" "STG learn_df = 2" "c_rem 20 (TSC2 learn_df) = 0"
    by (simp_all add: learn_df_sel allocated_def c_rem_def)
  have e: "MAIN 20 2 learn_df = Inr (projr (MAIN 20 2 learn_df))"
    using c(1) by simp
  have r: "1 \<le> f_flag learn_df" "f_flag learn_df \<le> 4" by (simp_all add: learn_df_sel)
  from stage2_promotion [OF h e c(2) r] show ?thesis
    by (simp add: learn_df_sel c(3)) (simp add: learn_df_def)
qed

subsection \<open>Stage 4\<close>

text \<open>
  C10.  In stage 4, on a step whose number is a multiple of \<^verbatim>\<open>TSC2\<close>, under a scheme with
  \<^verbatim>\<open>f_flag > 1\<close>, \<^verbatim>\<open>MAIN\<close> zeroes \<^verbatim>\<open>Hist\<close> and resets \<^verbatim>\<open>CountH\<close> to 0, leaves \<^verbatim>\<open>f\<close> as it is
  and stays in stage 4.  Line 897 assigns \<open>ln f / (2 bin)\<close> to \<^verbatim>\<open>df\<close> in stage 4 as well; \<^verbatim>\<open>df\<close>
  has that value already (it is set so by \<^verbatim>\<open>init\<close> and after every change of \<^verbatim>\<open>f\<close>), so it
  is left unchanged too.
\<close>

theorem production_window_reset:
  assumes "allocated s" and "STG s = 4" and "1 < f_flag s" and "c_rem istep (TSC2 s) = 0"
    and "df s = ln (f s) * 0.5 / bin s" and "MAIN istep potE s = Inr s'"
  shows "Hist s' = replicate (nat (N s)) 0 \<and> CountH s' = 0 \<and> f s' = f s \<and> df s' = df s \<and>
         STG s' = 4"
proof -
  from assms(6) obtain s1 s2 s3 where m1: "MAIN_record istep potE s = Inr s1"
    and m3: "(if STG s1 \<ge> 3 then MAIN_stage3 istep s1 else Inr s1) = Inr s2"
    and m4: "(if STG s2 = 2 then MAIN_stage2 istep s2 else Inr s2) = Inr s3"
    and m5: "(if STG s3 = 1 then MAIN_stage1 istep s3 else Inr s3) = Inr s'"
    by (rule MAIN_Inr)
  note k = MAIN_record_frame [OF m1]
  have "allocated s1" by (rule MAIN_record_allocated [OF m1 assms(1)])
  then have l: "length (Hist s1) = nat (N s)" by (simp add: allocated_def k)
  from m3 k(1) assms(2) have st3: "MAIN_stage3 istep s1 = Inr s2" by simp
  from assms(3) have n1: "f_flag s \<noteq> 1" by simp
  from st3 have e: "s2 = (if f (stage3_reduce s1) \<le> finFval s1
       then (stage3_reduce s1)\<lparr>STG := 4\<rparr> else stage3_reduce s1)"
  proof (cases rule: MAIN_stage3_Inr)
    case skip
    with assms(4) k(4) show ?thesis by simp
  next
    case (run s2a)
    from run(2) n1 assms(3) k(2) have "s2a = stage3_reduce s1" by simp
    with run(3) show ?thesis by simp
  qed
  have r: "Hist (stage3_reduce s1) = replicate (nat (N s)) 0" "CountH (stage3_reduce s1) = 0"
    "f (stage3_reduce s1) = f s" "df (stage3_reduce s1) = ln (f s) * 0.5 / bin s"
    using l assms(2) by (simp_all add: stage3_reduce_def Let_def ResetPH_Hist k)
  have "STG (stage3_reduce s1) = 4" using assms(2) by (simp add: k)
  then have g: "STG s2 = 4" by (simp add: e)
  from m4 g have "s3 = s2" by simp
  with m5 g have "s' = s2" by simp
  then show ?thesis using r g assms(5) by (simp add: e)
qed

lemma production_sel:
  "N production = 5" "STG production = 4" "f_flag production = 2" "TSC2 production = 10"
  "df production = 1 / 2000" "f production = exp (1 / 1000)" "bin production = 1"
  "length (Y2 production) = 5" "length (Hist production) = 5" "length (Htot production) = 5"
  "length (PROH production) = 5"
  by (simp_all add: production_def converge_def ping_def)

lemma production_step: "\<not> isl (MAIN 10 1 production)"
  by (simp add: MAIN_def MAIN_record_def and_then_def Yval_def MAIN_count_def MAIN_hist_def
      MAIN_stage3_def c_rem_def c_round_def production_def converge_def ping_def Let_def)

theorem production_window_reset_witness:
  "\<not> isl (MAIN 10 1 production) \<and>
   Hist (projr (MAIN 10 1 production)) = [0, 0, 0, 0, 0] \<and>
   CountH (projr (MAIN 10 1 production)) = 0 \<and>
   f (projr (MAIN 10 1 production)) = exp (1 / 1000) \<and>
   df (projr (MAIN 10 1 production)) = 1 / 2000 \<and>
   STG (projr (MAIN 10 1 production)) = 4"
proof -
  have h: "allocated production" "STG production = 4" "1 < f_flag production"
    "c_rem 10 (TSC2 production) = 0"
    "df production = ln (f production) * 0.5 / bin production"
    by (simp_all add: production_sel allocated_def c_rem_def)
  have e: "MAIN 10 1 production = Inr (projr (MAIN 10 1 production))"
    using production_step by simp
  from production_window_reset [OF h e] production_step show ?thesis
    by (simp add: production_sel numeral_eq_Suc)
qed

subsection \<open>The range of the temperature table\<close>


























subsection \<open>Writing and reloading the restart file\<close>

lemma round_half_even_of_int: "round_half_even (real_of_int k) = k"
  by (simp add: round_half_even_def)

lemma print_f_of_int: "print_f (real_of_int k) = real_of_int k"
proof -
  have "real_of_int k * 1000000 = real_of_int (k * 1000000)" by simp
  then have "round_half_even (real_of_int k * 1000000) = k * 1000000"
    by (simp only: round_half_even_of_int)
  then show ?thesis by (simp add: print_f_def)
qed

lemma c_trunc_of_int: "c_trunc (real_of_int k) = k"
  by (simp add: c_trunc_def)

lemma round_half_even_near: "\<bar>real_of_int (round_half_even x) - x\<bar> \<le> 1 / 2"
  unfolding round_half_even_def Let_def by (auto simp: abs_le_iff)

lemma print_f_near: "\<bar>print_f x - x\<bar> \<le> 1 / 2000000"
proof -
  have "\<bar>real_of_int (round_half_even (x * 1000000)) - x * 1000000\<bar> \<le> 1 / 2"
    by (rule round_half_even_near)
  then show ?thesis unfolding print_f_def by (simp add: abs_le_iff field_simps)
qed

lemma ndigits_pos: "1 \<le> ndigits n"
  by (subst ndigits.simps) simp

lemma width_f_ge: "8 \<le> width_f x"
  using ndigits_pos [of "nat (\<bar>round_half_even (x * 1000000)\<bar> div 1000000)"]
  by (simp add: width_f_def)

lemma width_d_ge: "1 \<le> width_d k"
  using ndigits_pos [of "nat \<bar>k\<bar>"] by (simp add: width_d_def)

lemma sum_widths_ge: "9 * length xs \<le> sum_list (map (\<lambda>x. width_f x + 1) xs)"
proof (induction xs)
  case Nil
  then show ?case by simp
next
  case (Cons x xs)
  with width_f_ge [of x] show ?case by simp
qed

lemma init_fresh_frame:
  "N (init_fresh c) = N c" "bin (init_fresh c) = bin c" "OREST (init_fresh c) = OREST c"
  "Hist (init_fresh c) = replicate (nat (N c)) 0"
  by (simp_all add: init_fresh_def Let_def)

lemma init_restart_Inr:
  assumes "int (fst file) \<ge> (3 * N c + 13) * 8" and "int (length (snd file)) \<ge> 3 * N c + 13"
  shows "\<exists>s'. init_restart file c = Inr s' \<and>
     STG s' = c_trunc (snd file ! 0) \<and> f s' = snd file ! 1 \<and>
     CountH s' = c_trunc (snd file ! 2) \<and> SWf s' = c_trunc (snd file ! 3) \<and>
     SWfold s' = c_trunc (snd file ! 4) \<and> SWchk s' = c_trunc (snd file ! 5) \<and>
     Count s' = c_trunc (snd file ! 6) \<and> totCi s' = c_trunc (snd file ! 7) \<and>
     CountPH s' = c_trunc (snd file ! 8) \<and> T1 s' = snd file ! 9 \<and> T2 s' = snd file ! 10 \<and>
     CTmin s' = snd file ! 11 \<and> CTmax s' = snd file ! 12 \<and>
     Y2 s' = map (\<lambda>i. snd file ! (13 + i)) [0..<nat (N c)] \<and>
     Htot s' = map (\<lambda>i. c_trunc (snd file ! (13 + nat (N c) + i))) [0..<nat (N c)] \<and>
     PROH s' = map (\<lambda>i. c_trunc (snd file ! (13 + 2 * nat (N c) + i))) [0..<nat (N c)] \<and>
     Hist s' = Hist c \<and> df s' = ln (snd file ! 1) * 0.5 / bin c"
  using assms by (simp add: init_restart_def Let_def)

lemma orest_list_allocated:
  assumes "allocated s"
  shows "orest_list s =
     [real_of_int (STG s), f s, real_of_int (CountH s), real_of_int (SWf s),
      real_of_int (SWfold s), real_of_int (SWchk s), real_of_int (Count s),
      real_of_int (totCi s), real_of_int (CountPH s), T1 s, T2 s, CTmin s, CTmax s]
     @ Y2 s @ map real_of_int (Htot s) @ map real_of_int (PROH s)"
proof -
  define n where "n = nat (N s)"
  have len: "length (Y2 s) = n" "length (Htot s) = n" "length (PROH s) = n"
    using assms by (simp_all add: allocated_def n_def)
  have arr: "map (\<lambda>i. Y2 s ! i) [0..<n] = Y2 s"
    "map (\<lambda>i. real_of_int (Htot s ! i)) [0..<n] = map real_of_int (Htot s)"
    "map (\<lambda>i. real_of_int (PROH s ! i)) [0..<n] = map real_of_int (PROH s)"
    using len by (auto intro: nth_equalityI)
  show ?thesis unfolding orest_list_def n_def [symmetric] arr ..
qed

lemma write_orest_Inr:
  assumes "allocated s" and "RSTFRQ s \<noteq> 0" and "c_rem ntimestep (RSTFRQ s) = 0"
  shows "\<exists>sz. write_orest ntimestep s file0
              = Inr (sz, real_of_int (STG s) # map print_f (tl (orest_list s))) \<and>
            (3 * N s + 13) * 8 \<le> int sz"
proof -
  define n where "n = nat (N s)"
  have N: "N s = int n" and len: "length (Y2 s) = n" "length (Htot s) = n" "length (PROH s) = n"
    using assms(1) by (simp_all add: allocated_def n_def)
  define sz where "sz = width_d (STG s) + 1
      + sum_list (map (\<lambda>x. width_f x + 1) (tl (orest_list s))) + 3"
  have w: "write_orest ntimestep s file0
      = Inr (sz, real_of_int (STG s) # map print_f (tl (orest_list s)))"
    using assms(2,3) by (simp add: write_orest_def Let_def sz_def)
  have lt: "length (tl (orest_list s)) = 12 + 3 * n"
    by (simp add: orest_list_allocated [OF assms(1)] len)
  have "9 * (12 + 3 * n) \<le> sum_list (map (\<lambda>x. width_f x + 1) (tl (orest_list s)))"
    using sum_widths_ge [of "tl (orest_list s)"] by (simp only: lt)
  with width_d_ge [of "STG s"] have "113 + 27 * n \<le> sz" by (simp add: sz_def)
  then have "(3 * N s + 13) * 8 \<le> int sz" by (simp add: N)
  with w show ?thesis by blast
qed

lemma orest_numbers:
  assumes "allocated s" and "L = real_of_int (STG s) # map print_f (tl (orest_list s))"
  shows "length L = 13 + 3 * nat (N s)"
    and "L ! 0 = real_of_int (STG s)" and "L ! 1 = print_f (f s)"
    and "L ! 2 = real_of_int (CountH s)" and "L ! 3 = real_of_int (SWf s)"
    and "L ! 4 = real_of_int (SWfold s)" and "L ! 5 = real_of_int (SWchk s)"
    and "L ! 6 = real_of_int (Count s)" and "L ! 7 = real_of_int (totCi s)"
    and "L ! 8 = real_of_int (CountPH s)" and "L ! 9 = print_f (T1 s)"
    and "L ! 10 = print_f (T2 s)" and "L ! 11 = print_f (CTmin s)"
    and "L ! 12 = print_f (CTmax s)"
    and "map (\<lambda>i. L ! (13 + i)) [0..<nat (N s)] = map print_f (Y2 s)"
    and "map (\<lambda>i. c_trunc (L ! (13 + nat (N s) + i))) [0..<nat (N s)] = Htot s"
    and "map (\<lambda>i. c_trunc (L ! (13 + 2 * nat (N s) + i))) [0..<nat (N s)] = PROH s"
proof -
  define n where "n = nat (N s)"
  have len: "length (Y2 s) = n" "length (Htot s) = n" "length (PROH s) = n"
    using assms(1) by (simp_all add: allocated_def n_def)
  define H where "H = [real_of_int (STG s), print_f (f s), real_of_int (CountH s),
      real_of_int (SWf s), real_of_int (SWfold s), real_of_int (SWchk s),
      real_of_int (Count s), real_of_int (totCi s), real_of_int (CountPH s), print_f (T1 s),
      print_f (T2 s), print_f (CTmin s), print_f (CTmax s)]"
  define A where "A = map print_f (Y2 s)"
  define B where "B = map real_of_int (Htot s)"
  define C where "C = map real_of_int (PROH s)"
  have L: "L = H @ A @ B @ C"
    by (simp add: assms(2) orest_list_allocated [OF assms(1)] H_def A_def B_def C_def o_def
        print_f_of_int)
  have lH: "length H = 13" by (simp add: H_def)
  show "length L = 13 + 3 * nat (N s)"
    by (simp add: L lH A_def B_def C_def len n_def [symmetric])
  show "L ! 0 = real_of_int (STG s)" "L ! 1 = print_f (f s)"
    "L ! 2 = real_of_int (CountH s)" "L ! 3 = real_of_int (SWf s)"
    "L ! 4 = real_of_int (SWfold s)" "L ! 5 = real_of_int (SWchk s)"
    "L ! 6 = real_of_int (Count s)" "L ! 7 = real_of_int (totCi s)"
    "L ! 8 = real_of_int (CountPH s)" "L ! 9 = print_f (T1 s)"
    "L ! 10 = print_f (T2 s)" "L ! 11 = print_f (CTmin s)" "L ! 12 = print_f (CTmax s)"
    by (simp_all add: L H_def)
  show "map (\<lambda>i. L ! (13 + i)) [0..<nat (N s)] = map print_f (Y2 s)"
    unfolding n_def [symmetric] A_def [symmetric]
  proof (rule nth_equalityI)
    show "length (map (\<lambda>i. L ! (13 + i)) [0..<n]) = length A" by (simp add: A_def len)
    fix i assume "i < length (map (\<lambda>i. L ! (13 + i)) [0..<n])"
    then have i: "i < n" by simp
    have "L ! (length H + i) = (A @ B @ C) ! i" unfolding L by (rule nth_append_length_plus)
    with i show "map (\<lambda>i. L ! (13 + i)) [0..<n] ! i = A ! i"
      by (simp add: lH nth_append A_def len)
  qed
  show "map (\<lambda>i. c_trunc (L ! (13 + nat (N s) + i))) [0..<nat (N s)] = Htot s"
    unfolding n_def [symmetric]
  proof (rule nth_equalityI)
    show "length (map (\<lambda>i. c_trunc (L ! (13 + n + i))) [0..<n]) = length (Htot s)"
      by (simp add: len)
    fix i assume "i < length (map (\<lambda>i. c_trunc (L ! (13 + n + i))) [0..<n])"
    then have i: "i < n" by simp
    have e: "13 + n + i = length (H @ A) + i" by (simp add: lH A_def len)
    have "L ! (13 + n + i) = (B @ C) ! i"
      unfolding e using nth_append_length_plus [of "H @ A" "B @ C" i] by (simp add: L)
    with i show "map (\<lambda>i. c_trunc (L ! (13 + n + i))) [0..<n] ! i = Htot s ! i"
      by (simp add: nth_append B_def len c_trunc_of_int)
  qed
  show "map (\<lambda>i. c_trunc (L ! (13 + 2 * nat (N s) + i))) [0..<nat (N s)] = PROH s"
    unfolding n_def [symmetric]
  proof (rule nth_equalityI)
    show "length (map (\<lambda>i. c_trunc (L ! (13 + 2 * n + i))) [0..<n]) = length (PROH s)"
      by (simp add: len)
    fix i assume "i < length (map (\<lambda>i. c_trunc (L ! (13 + 2 * n + i))) [0..<n])"
    then have i: "i < n" by simp
    have e: "13 + 2 * n + i = length (H @ A @ B) + i" by (simp add: lH A_def B_def len)
    have "L ! (13 + 2 * n + i) = C ! i"
      unfolding e using nth_append_length_plus [of "H @ A @ B" C i] by (simp add: L)
    with i show "map (\<lambda>i. c_trunc (L ! (13 + 2 * n + i))) [0..<n] ! i = PROH s ! i"
      by (simp add: C_def len c_trunc_of_int)
  qed
qed

text \<open>
  C5, amended.  For every engine with its \<^verbatim>\<open>N\<close>-cell arrays, on a step that is a multiple
  of \<^verbatim>\<open>RSTFRQ\<close>, \<^verbatim>\<open>write_orest\<close> writes a file that \<^verbatim>\<open>init\<close> of an engine with the same \<^verbatim>\<open>N\<close> and the
  restart option accepts, and the reloaded engine has the same \<^verbatim>\<open>STG\<close>, \<^verbatim>\<open>CountH\<close>, \<^verbatim>\<open>SWf\<close>,
  \<^verbatim>\<open>SWfold\<close>, \<^verbatim>\<open>SWchk\<close>, \<^verbatim>\<open>Count\<close>, \<^verbatim>\<open>totCi\<close>, \<^verbatim>\<open>CountPH\<close>, \<^verbatim>\<open>Htot\<close> and \<^verbatim>\<open>PROH\<close>, a \<^verbatim>\<open>Hist\<close> of zeros, and
  \<^verbatim>\<open>f\<close>, \<^verbatim>\<open>T1\<close>, \<^verbatim>\<open>T2\<close>, \<^verbatim>\<open>CTmin\<close>, \<^verbatim>\<open>CTmax\<close> and every \<^verbatim>\<open>Y2[i]\<close> rounded to six decimals, so within
  \<open>5 \<cdot> 10\<^sup>-\<^sup>7\<close> of the written value.
\<close>

theorem restart_round_trip:
  assumes "allocated s" and "RSTFRQ s \<noteq> 0" and "c_rem ntimestep (RSTFRQ s) = 0"
    and "OREST c \<noteq> 0" and "N c = N s"
  shows "\<exists>file s'. write_orest ntimestep s file0 = Inr file \<and> init (Some file) c = Inr s' \<and>
     STG s' = STG s \<and> CountH s' = CountH s \<and> SWf s' = SWf s \<and> SWfold s' = SWfold s \<and>
     SWchk s' = SWchk s \<and> Count s' = Count s \<and> totCi s' = totCi s \<and>
     CountPH s' = CountPH s \<and> Htot s' = Htot s \<and> PROH s' = PROH s \<and>
     Hist s' = replicate (nat (N s)) 0 \<and>
     f s' = print_f (f s) \<and> T1 s' = print_f (T1 s) \<and> T2 s' = print_f (T2 s) \<and>
     CTmin s' = print_f (CTmin s) \<and> CTmax s' = print_f (CTmax s) \<and>
     Y2 s' = map print_f (Y2 s) \<and>
     \<bar>f s' - f s\<bar> \<le> 1 / 2000000 \<and>
     (\<forall>i<nat (N s). \<bar>Y2 s' ! i - Y2 s ! i\<bar> \<le> 1 / 2000000)"
proof -
  define L where "L = real_of_int (STG s) # map print_f (tl (orest_list s))"
  from write_orest_Inr [OF assms(1-3), of file0] obtain sz where
    w: "write_orest ntimestep s file0 = Inr (sz, L)" and sz: "(3 * N s + 13) * 8 \<le> int sz"
    unfolding L_def by blast
  note n = orest_numbers [OF assms(1) L_def]
  have N: "0 \<le> N s" and len: "length (Y2 s) = nat (N s)"
    using assms(1) by (simp_all add: allocated_def)
  have c1: "(3 * N (init_fresh c) + 13) * 8 \<le> int (fst (sz, L))"
    using sz by (simp add: init_fresh_frame assms(5))
  have c2: "3 * N (init_fresh c) + 13 \<le> int (length (snd (sz, L)))"
    using N by (simp add: init_fresh_frame assms(5) n(1))
  from init_restart_Inr [OF c1 c2] obtain s' where
    r: "init_restart (sz, L) (init_fresh c) = Inr s'"
    and v: "STG s' = c_trunc (L ! 0)" "f s' = L ! 1" "CountH s' = c_trunc (L ! 2)"
      "SWf s' = c_trunc (L ! 3)" "SWfold s' = c_trunc (L ! 4)" "SWchk s' = c_trunc (L ! 5)"
      "Count s' = c_trunc (L ! 6)" "totCi s' = c_trunc (L ! 7)" "CountPH s' = c_trunc (L ! 8)"
      "T1 s' = L ! 9" "T2 s' = L ! 10" "CTmin s' = L ! 11" "CTmax s' = L ! 12"
      "Y2 s' = map (\<lambda>i. L ! (13 + i)) [0..<nat (N s)]"
      "Htot s' = map (\<lambda>i. c_trunc (L ! (13 + nat (N s) + i))) [0..<nat (N s)]"
      "PROH s' = map (\<lambda>i. c_trunc (L ! (13 + 2 * nat (N s) + i))) [0..<nat (N s)]"
      "Hist s' = replicate (nat (N s)) 0"
    by (auto simp: init_fresh_frame assms(5))
  have i: "init (Some (sz, L)) c = Inr s'"
    using assms(4) r by (simp add: init_def Let_def init_fresh_frame)
  have y: "Y2 s' = map print_f (Y2 s)" unfolding v n ..
  have near: "\<forall>i<nat (N s). \<bar>Y2 s' ! i - Y2 s ! i\<bar> \<le> 1 / 2000000"
    using len print_f_near by (simp add: y)
  have "STG s' = STG s \<and> CountH s' = CountH s \<and> SWf s' = SWf s \<and> SWfold s' = SWfold s \<and>
     SWchk s' = SWchk s \<and> Count s' = Count s \<and> totCi s' = totCi s \<and>
     CountPH s' = CountPH s \<and> Htot s' = Htot s \<and> PROH s' = PROH s \<and>
     Hist s' = replicate (nat (N s)) 0 \<and>
     f s' = print_f (f s) \<and> T1 s' = print_f (T1 s) \<and> T2 s' = print_f (T2 s) \<and>
     CTmin s' = print_f (CTmin s) \<and> CTmax s' = print_f (CTmax s)"
    unfolding v n by (simp add: c_trunc_of_int)
  moreover have "\<bar>f s' - f s\<bar> \<le> 1 / 2000000"
    unfolding v n by (rule print_f_near)
  ultimately show ?thesis using w i y near by blast
qed

lemma stepped_sel:
  "N stepped = 5" "RSTFRQ stepped = 1000" "STG stepped = 1" "CountH stepped = 1"
  "Y2 stepped = [2, 2, 100 / 51, 2, 2]" "Htot stepped = [0, 0, 0, 1, 0]"
  "PROH stepped = [0, 0, 0, 0, 0]" "Hist stepped = [0, 0, 0, 1, 0]" "totCi stepped = 1"
  by (simp_all add: stepped_def ping_def)

lemma restarted_sel: "N restarted = 5" "OREST restarted = 1"
  by (simp_all add: restarted_def ping_def)

lemma stepped_hyps:
  "allocated stepped" "RSTFRQ stepped \<noteq> 0" "c_rem 1000 (RSTFRQ stepped) = 0"
  "OREST restarted \<noteq> 0" "N restarted = N stepped"
  by (simp_all add: stepped_sel restarted_sel allocated_def c_rem_def)

text \<open>
  C5, as stated: after writing and reloading, the temperature table is identical to the
  one written.  The engine \<open>stepped\<close> holds \<open>100/51 = 1.96078431...\<close> in bin 2; \<^verbatim>\<open>%f\<close> writes
  \<^verbatim>\<open>1.960784\<close>, and that is the value \<^verbatim>\<open>init\<close> reads back.
\<close>

theorem restart_not_identical_counterexample:
  "\<not> isl (write_orest 1000 stepped (0, [])) \<and>
   \<not> isl (init (Some (projr (write_orest 1000 stepped (0, [])))) restarted) \<and>
   Y2 stepped ! 2 = 100 / 51 \<and>
   Y2 (projr (init (Some (projr (write_orest 1000 stepped (0, [])))) restarted)) ! 2
     = 1960784 / 1000000 \<and>
   Y2 (projr (init (Some (projr (write_orest 1000 stepped (0, [])))) restarted)) \<noteq> Y2 stepped"
proof -
  define L where "L = real_of_int (STG stepped) # map print_f (tl (orest_list stepped))"
  from write_orest_Inr [OF stepped_hyps(1-3), of "(0, [])"] obtain sz where
    w: "write_orest 1000 stepped (0, []) = Inr (sz, L)"
    and sz: "(3 * N stepped + 13) * 8 \<le> int sz"
    unfolding L_def by blast
  note n = orest_numbers [OF stepped_hyps(1) L_def]
  have c1: "(3 * N (init_fresh restarted) + 13) * 8 \<le> int (fst (sz, L))"
    using sz by (simp add: init_fresh_frame stepped_hyps(5))
  have c2: "3 * N (init_fresh restarted) + 13 \<le> int (length (snd (sz, L)))"
    by (simp add: init_fresh_frame n(1) stepped_sel restarted_sel)
  from init_restart_Inr [OF c1 c2] obtain s' where
    r: "init_restart (sz, L) (init_fresh restarted) = Inr s'"
    and v: "Y2 s' = map (\<lambda>i. L ! (13 + i)) [0..<nat (N stepped)]"
    by (auto simp: init_fresh_frame stepped_hyps(5))
  have i: "init (Some (sz, L)) restarted = Inr s'"
    using r by (simp add: init_def Let_def init_fresh_frame restarted_sel)
  have y: "Y2 s' = map print_f (Y2 stepped)" unfolding v n ..
  have p: "print_f (100 / 51) = 1960784 / 1000000"
    by (simp add: print_f_def round_half_even_def)
  have "Y2 s' ! 2 = 1960784 / 1000000" by (simp add: y stepped_sel p)
  moreover have "Y2 stepped ! 2 = 100 / 51" by (simp add: stepped_sel)
  ultimately show ?thesis using w i by auto
qed

theorem restart_round_trip_witness:
  "\<not> isl (write_orest 1000 stepped (0, [])) \<and>
   \<not> isl (init (Some (projr (write_orest 1000 stepped (0, [])))) restarted) \<and>
   STG (projr (init (Some (projr (write_orest 1000 stepped (0, [])))) restarted)) = 1 \<and>
   totCi (projr (init (Some (projr (write_orest 1000 stepped (0, [])))) restarted)) = 1 \<and>
   Htot (projr (init (Some (projr (write_orest 1000 stepped (0, [])))) restarted))
     = [0, 0, 0, 1, 0] \<and>
   Hist (projr (init (Some (projr (write_orest 1000 stepped (0, [])))) restarted))
     = [0, 0, 0, 0, 0]"
proof -
  from restart_round_trip [OF stepped_hyps, of "(0, [])"] obtain fl s' where
    w: "write_orest 1000 stepped (0, []) = Inr fl" and i: "init (Some fl) restarted = Inr s'"
    and v: "STG s' = STG stepped" "totCi s' = totCi stepped" "Htot s' = Htot stepped"
      "Hist s' = replicate (nat (N stepped)) 0"
    by blast
  from w i v show ?thesis by (simp add: stepped_sel numeral_eq_Suc)
qed

subsection \<open>Exchanges with a walker in stage 1\<close>

text \<open>
  C9.  When either walker of a pair reports stage 1 and both energies lie inside both
  windows, the exchange is rejected, whatever the Metropolis factor and the random
  number are.
\<close>

theorem stage1_exchange_rejected:
  assumes "STG_me a = 1 \<or> STG_me b = 1"
    and "Emin_me b \<le> U_me a \<and> U_me a \<le> Emax_me b"
    and "Emin_me a \<le> U_me b \<and> U_me b \<le> Emax_me a"
  shows "\<not> exchange_accepted EX_flag boltz r a b"
  using assms(1) by (auto simp: exchange_accepted_def exchange_admitted_def stage_gate_def)

theorem stage1_exchange_rejected_witness:
  "STG_me walker_a = 1 \<and> metropolis_delta 1 walker_a walker_b = 1 / 2 \<and>
   (0::real) < min 1 (exp (metropolis_delta 1 walker_a walker_b)) \<and>
   \<not> exchange_accepted 1 1 0 walker_a walker_b"
proof -
  have h: "STG_me walker_a = 1 \<or> STG_me walker_b = 1"
    "Emin_me walker_b \<le> U_me walker_a \<and> U_me walker_a \<le> Emax_me walker_b"
    "Emin_me walker_a \<le> U_me walker_b \<and> U_me walker_b \<le> Emax_me walker_a"
    by (simp_all add: walker_a_def walker_b_def)
  have d: "metropolis_delta 1 walker_a walker_b = 1 / 2"
    by (simp add: metropolis_delta_def walker_a_def walker_b_def)
  from stage1_exchange_rejected [OF h, of 1 1 0] d show ?thesis
    by (simp add: walker_a_def)
qed

end
